theory Spec2Isabelle
  imports Main "HOL-Library.Sublist"
begin

section \<open>Values, errors and the Python library the code calls\<close>

text \<open>
  A record of the protocol is a Python \<open>Dict[str, Any]\<close>. The ledger stores it as JSON text
  and reads it back with \<open>json.loads\<close>, so the values that reach the code are JSON values.
  The model covers \<open>None\<close>, booleans, integers, strings and lists of these; on them the
  JSON round trip is the identity. Floats and nested dictionaries are outside the model.
  Strings are ASCII (one \<open>char\<close> per code point), so \<open>encode('utf-8')\<close> is the identity.
\<close>

datatype jvalue = JNull | JBool bool | JInt int | JStr string | JList "jvalue list"

type_synonym jdict = "string \<Rightarrow> jvalue option"

text \<open>
  Every exception the code can raise is a value. The first block are exceptions raised by
  library calls; the second block are the \<open>ValueError\<close>s the repository raises itself, one
  constructor per message (\<open>"Invalid genesis hash"\<close>, \<open>"Hash chain validation failed"\<close>,
  \<open>"Invalid Decision Record: [...]"\<close>, \<open>"Invalid Revocation Record: [...]"\<close>,
  \<open>"Target decision not found: ..."\<close>, \<open>"Decision already revoked: ..."\<close>).
  \<open>SqliteError\<close> stands for whatever \<open>sqlite3\<close> raises when an INSERT is refused
  (\<open>ProgrammingError\<close>, \<open>OverflowError\<close>, \<open>IntegrityError\<close>).
\<close>

datatype error =
    TypeError
  | AttributeError
  | KeyError
  | DateValueError
  | InvalidOperation
  | Overflow
  | SqliteError
  | InvalidGenesisHash
  | HashChainValidationFailed
  | InvalidDecisionRecord "string list"
  | InvalidRevocationRecord "string list"
  | TargetDecisionNotFound string
  | DecisionAlreadyRevoked string

text \<open>Sequencing of statements that may raise: the first exception ends the call.\<close>

definition bind_err :: "error + 'a \<Rightarrow> ('a \<Rightarrow> error + 'b) \<Rightarrow> error + 'b" where
  "bind_err m f = (case m of Inl e \<Rightarrow> Inl e | Inr x \<Rightarrow> f x)"

subsection \<open>Dictionary access\<close>

text \<open>\<open>d.get(k)\<close>, \<open>d.get(k, default)\<close> and \<open>d[k]\<close>.\<close>

definition py_get :: "jdict \<Rightarrow> string \<Rightarrow> jvalue" where
  "py_get d k = (case d k of None \<Rightarrow> JNull | Some v \<Rightarrow> v)"

definition py_get_default :: "jdict \<Rightarrow> string \<Rightarrow> jvalue \<Rightarrow> jvalue" where
  "py_get_default d k dflt = (case d k of None \<Rightarrow> dflt | Some v \<Rightarrow> v)"

definition py_index :: "jdict \<Rightarrow> string \<Rightarrow> error + jvalue" where
  "py_index d k = (case d k of None \<Rightarrow> Inl KeyError | Some v \<Rightarrow> Inr v)"

text \<open>Truth value of an object, as \<open>if x\<close> and \<open>x and y\<close> test it.\<close>

fun py_truthy :: "jvalue \<Rightarrow> bool" where
  "py_truthy JNull = False"
| "py_truthy (JBool b) = b"
| "py_truthy (JInt n) = (n \<noteq> 0)"
| "py_truthy (JStr s) = (s \<noteq> [])"
| "py_truthy (JList xs) = (xs \<noteq> [])"

subsection \<open>\<open>str()\<close>, \<open>repr()\<close>, \<open>lower()\<close>, \<open>upper()\<close>\<close>

definition digit_chars :: string where
  "digit_chars = ''0123456789''"

definition hex_chars :: string where
  "hex_chars = ''0123456789abcdef''"

text \<open>The decimal digits of a natural number, given as an \<open>int\<close>.\<close>

function digits_of :: "int \<Rightarrow> string" where
  "digits_of n =
     (if n < 10 then [digit_chars ! nat n]
      else digits_of (n div 10) @ [digit_chars ! nat (n mod 10)])"
  by pat_completeness auto
termination
  by (relation "measure nat") auto

declare digits_of.simps [simp del]

definition str_int :: "int \<Rightarrow> string" where
  "str_int i = (if i < 0 then CHR ''-'' # digits_of (- i) else digits_of i)"

definition lower_char :: "char \<Rightarrow> char" where
  "lower_char c =
     (let n = (of_char c :: int) in if 65 \<le> n \<and> n \<le> 90 then char_of (n + 32) else c)"

definition upper_char :: "char \<Rightarrow> char" where
  "upper_char c =
     (let n = (of_char c :: int) in if 97 \<le> n \<and> n \<le> 122 then char_of (n - 32) else c)"

definition lower :: "string \<Rightarrow> string" where
  "lower s = map lower_char s"

definition upper :: "string \<Rightarrow> string" where
  "upper s = map upper_char s"

text \<open>
  \<open>repr\<close> of an ASCII string: single quotes unless the text has a single quote and no
  double quote; backslash, the quote, tab, newline and carriage return are escaped, other
  control characters are written \<open>\xNN\<close>.
\<close>

definition repr_char :: "char \<Rightarrow> char \<Rightarrow> string" where
  "repr_char q c =
     (let n = (of_char c :: int) in
      if n = 92 then [CHR 0x5C, CHR 0x5C]
      else if c = q then [CHR 0x5C, q]
      else if n = 9 then [CHR 0x5C, CHR ''t'']
      else if n = 10 then [CHR 0x5C, CHR ''n'']
      else if n = 13 then [CHR 0x5C, CHR ''r'']
      else if n < 32 \<or> n = 127
        then [CHR 0x5C, CHR ''x'', hex_chars ! nat (n div 16), hex_chars ! nat (n mod 16)]
      else [c])"

definition repr_str :: "string \<Rightarrow> string" where
  "repr_str s =
     (let q = (if CHR 0x27 \<in> set s \<and> CHR 0x22 \<notin> set s then CHR 0x22 else CHR 0x27)
      in [q] @ concat (map (repr_char q) s) @ [q])"

fun join_comma :: "string list \<Rightarrow> string" where
  "join_comma [] = []"
| "join_comma [x] = x"
| "join_comma (x # y # ys) = x @ '', '' @ join_comma (y # ys)"

fun py_repr :: "jvalue \<Rightarrow> string" where
  "py_repr JNull = ''None''"
| "py_repr (JBool b) = (if b then ''True'' else ''False'')"
| "py_repr (JInt i) = str_int i"
| "py_repr (JStr s) = repr_str s"
| "py_repr (JList xs) = ''['' @ join_comma (map py_repr xs) @ '']''"

definition py_str :: "jvalue \<Rightarrow> string" where
  "py_str v = (case v of JStr s \<Rightarrow> s | _ \<Rightarrow> py_repr v)"

definition py_isinstance_list :: "jvalue \<Rightarrow> bool" where
  "py_isinstance_list v = (case v of JList _ \<Rightarrow> True | _ \<Rightarrow> False)"

definition py_isinstance_str :: "jvalue \<Rightarrow> bool" where
  "py_isinstance_str v = (case v of JStr _ \<Rightarrow> True | _ \<Rightarrow> False)"

text \<open>\<open>len(x)\<close> of a list or a string (the code calls it only after \<open>isinstance\<close>).\<close>

definition py_len :: "jvalue \<Rightarrow> nat" where
  "py_len v = (case v of JList xs \<Rightarrow> length xs | JStr s \<Rightarrow> length s | _ \<Rightarrow> 0)"

subsection \<open>The UUID pattern of \<open>is_uuid_v4\<close>\<close>

text \<open>
  \<open>re.match\<close> of the pattern
  \<open>^[0-9a-f]{8}-[0-9a-f]{4}-4[0-9a-f]{3}-[89ab][0-9a-f]{3}-[0-9a-f]{12}$\<close>:
  one character class per position; \<open>$\<close> also matches just before one final newline.
\<close>

datatype char_class = Hex | Lit char | OneOf string

fun in_class :: "char_class \<Rightarrow> char \<Rightarrow> bool" where
  "in_class Hex c = (c \<in> set hex_chars)"
| "in_class (Lit l) c = (c = l)"
| "in_class (OneOf cs) c = (c \<in> set cs)"

definition uuid_pattern :: "char_class list" where
  "uuid_pattern =
     replicate 8 Hex @ [Lit (CHR ''-'')] @ replicate 4 Hex @ [Lit (CHR ''-'')] @
     [Lit (CHR ''4'')] @ replicate 3 Hex @ [Lit (CHR ''-'')] @
     [OneOf ''89ab''] @ replicate 3 Hex @ [Lit (CHR ''-'')] @ replicate 12 Hex"

definition newline :: char where
  "newline = CHR 0x0A"

definition re_match_uuid :: "string \<Rightarrow> bool" where
  "re_match_uuid s =
     (list_all2 in_class uuid_pattern s \<or>
      (s \<noteq> [] \<and> last s = newline \<and> list_all2 in_class uuid_pattern (butlast s)))"

subsection \<open>\<open>decimal.Decimal\<close> under the default context\<close>

text \<open>
  A \<open>Decimal\<close> is finite (coefficient times ten to the exponent), an infinity (the flag
  says negative) or a NaN (the flag says signalling). The sign of a zero and the payload of
  a NaN are not kept: no operation the code uses depends on them.
  The default context has 28 digits of precision, rounds half to even, has the exponent
  range \<open>Emin = -999999\<close>, \<open>Emax = 999999\<close> and traps \<open>InvalidOperation\<close> and \<open>Overflow\<close>.
  The constructor is exact; sums are rounded by the context; comparisons are exact.
  Digits other than ASCII and the constructor's own bound on exponents (beyond 18 digits)
  are outside the model.
\<close>

datatype decimal = Finite int int | Infinite bool | NaN bool

definition is_digit :: "char \<Rightarrow> bool" where
  "is_digit c = (c \<in> set digit_chars)"

definition digit_val :: "char \<Rightarrow> int" where
  "digit_val c = of_char c - 48"

definition digits_val :: "string \<Rightarrow> int" where
  "digits_val ds = foldl (\<lambda>acc c. 10 * acc + digit_val c) 0 ds"

definition is_space :: "char \<Rightarrow> bool" where
  "is_space c = (let n = (of_char c :: int) in (9 \<le> n \<and> n \<le> 13) \<or> (28 \<le> n \<and> n \<le> 32))"

definition strip :: "string \<Rightarrow> string" where
  "strip s = rev (dropWhile is_space (rev (dropWhile is_space s)))"

definition split_sign :: "string \<Rightarrow> bool \<times> string" where
  "split_sign s =
     (case s of
        [] \<Rightarrow> (False, [])
      | c # cs \<Rightarrow> if c = CHR ''-'' then (True, cs) else if c = CHR ''+'' then (False, cs)
                  else (False, s))"

definition signed :: "bool \<Rightarrow> int \<Rightarrow> int" where
  "signed neg n = (if neg then - n else n)"

text \<open>The exponent part: nothing, or \<open>e\<close>, an optional sign and at least one digit.\<close>

definition parse_exponent :: "string \<Rightarrow> int option" where
  "parse_exponent s =
     (case s of
        [] \<Rightarrow> Some 0
      | c # cs \<Rightarrow>
          if c \<noteq> CHR ''e'' then None
          else (let (neg, ds) = split_sign cs
                in if ds \<noteq> [] \<and> list_all is_digit ds then Some (signed neg (digits_val ds))
                   else None))"

text \<open>
  The numeric part: digits, optionally a point and more digits, with at least one digit
  in all, then the exponent part.
\<close>

definition parse_numeric :: "bool \<Rightarrow> string \<Rightarrow> error + decimal" where
  "parse_numeric neg s =
     (let ip = takeWhile is_digit s; r1 = dropWhile is_digit s;
          has_point = (r1 \<noteq> [] \<and> hd r1 = CHR ''.'');
          fp = (if has_point then takeWhile is_digit (tl r1) else []);
          r2 = (if has_point then dropWhile is_digit (tl r1) else r1)
      in if ip @ fp = [] then Inl InvalidOperation
         else (case parse_exponent r2 of
                 None \<Rightarrow> Inl InvalidOperation
               | Some x \<Rightarrow> Inr (Finite (signed neg (digits_val (ip @ fp))) (x - int (length fp)))))"

definition is_nan_body :: "string \<Rightarrow> string \<Rightarrow> bool" where
  "is_nan_body name s =
     (take (length name) s = name \<and> list_all is_digit (drop (length name) s))"

text \<open>
  \<open>Decimal(s)\<close> for a string: surrounding whitespace is stripped, underscores are dropped,
  letters are read without regard to case. A string that is no number raises
  \<open>InvalidOperation\<close>.
\<close>

definition Decimal :: "string \<Rightarrow> error + decimal" where
  "Decimal s =
     (let (neg, body) = split_sign (filter (\<lambda>c. c \<noteq> CHR ''_'') (strip s)); b = lower body
      in if b = ''inf'' \<or> b = ''infinity'' then Inr (Infinite neg)
         else if is_nan_body ''nan'' b then Inr (NaN False)
         else if is_nan_body ''snan'' b then Inr (NaN True)
         else parse_numeric neg b)"

definition prec :: int where "prec = 28"
definition Emax :: int where "Emax = 999999"
definition Emin :: int where "Emin = - 999999"
definition Etiny :: int where "Etiny = Emin - prec + 1"
definition Etop :: int where "Etop = Emax - prec + 1"

definition ndigits :: "int \<Rightarrow> int" where
  "ndigits c = int (length (digits_of \<bar>c\<bar>))"

text \<open>\<open>c / 10^k\<close> rounded to an integer, a tie going to the even neighbour.\<close>

definition round_half_even :: "int \<Rightarrow> nat \<Rightarrow> int" where
  "round_half_even c k =
     (let p = 10 ^ k; q = \<bar>c\<bar> div p; r = \<bar>c\<bar> mod p;
          q' = (if 2 * r > p \<or> (2 * r = p \<and> odd q) then q + 1 else q)
      in if c < 0 then - q' else q')"

text \<open>
  The context applied to an exact result \<open>c * 10^e\<close>: at most \<open>prec\<close> digits are kept, the
  exponent is not allowed below \<open>Etiny\<close>, and a result too large for \<open>Emax\<close> raises.
\<close>

definition context_fix :: "int \<Rightarrow> int \<Rightarrow> error + decimal" where
  "context_fix c e =
     (if c = 0 then Inr (Finite 0 (min (max e Etiny) Emax))
      else
        let exp_min = ndigits c + e - prec in
        if exp_min > Etop then Inl Overflow
        else
          let target = max exp_min Etiny in
          if e < target then
            (let c' = round_half_even c (nat (target - e)) in
             if ndigits c' > prec then
               (if target + 1 > Etop then Inl Overflow else Inr (Finite (c' div 10) (target + 1)))
             else Inr (Finite c' target))
          else Inr (Finite c e))"

fun dec_add :: "decimal \<Rightarrow> decimal \<Rightarrow> error + decimal" where
  "dec_add (NaN sig) y =
     (if sig \<or> y = NaN True then Inl InvalidOperation else Inr (NaN False))"
| "dec_add x (NaN sig) = (if sig then Inl InvalidOperation else Inr (NaN False))"
| "dec_add (Infinite n1) (Infinite n2) =
     (if n1 \<noteq> n2 then Inl InvalidOperation else Inr (Infinite n1))"
| "dec_add (Infinite n1) (Finite c e) = Inr (Infinite n1)"
| "dec_add (Finite c e) (Infinite n2) = Inr (Infinite n2)"
| "dec_add (Finite c1 e1) (Finite c2 e2) =
     (let e = min e1 e2
      in context_fix (c1 * 10 ^ nat (e1 - e) + c2 * 10 ^ nat (e2 - e)) e)"

text \<open>
  The ordering comparisons \<open><\<close>, \<open><=\<close>, \<open>>\<close>, \<open>>=\<close> raise \<open>InvalidOperation\<close> when an
  operand is a NaN and compare the exact values otherwise.
\<close>

fun dec_less :: "decimal \<Rightarrow> decimal \<Rightarrow> error + bool" where
  "dec_less (NaN s) y = Inl InvalidOperation"
| "dec_less x (NaN s) = Inl InvalidOperation"
| "dec_less (Infinite n1) (Infinite n2) = Inr (n1 \<and> \<not> n2)"
| "dec_less (Infinite n1) (Finite c e) = Inr n1"
| "dec_less (Finite c e) (Infinite n2) = Inr (\<not> n2)"
| "dec_less (Finite c1 e1) (Finite c2 e2) =
     (let e = min e1 e2 in Inr (c1 * 10 ^ nat (e1 - e) < c2 * 10 ^ nat (e2 - e)))"

definition dec_greater :: "decimal \<Rightarrow> decimal \<Rightarrow> error + bool" where
  "dec_greater x y = dec_less y x"

definition dec_le :: "decimal \<Rightarrow> decimal \<Rightarrow> error + bool" where
  "dec_le x y = bind_err (dec_less y x) (\<lambda>b. Inr (\<not> b))"

definition dec_zero :: decimal where
  "dec_zero = Finite 0 0"

subsection \<open>\<open>datetime\<close>\<close>

text \<open>
  A parsed timestamp is naive (no UTC offset given; the number is its wall-clock time) or
  aware (the number is its instant in UTC), both counted in microseconds. Two naive or two
  aware values compare by their numbers; \<open><\<close> and \<open>>\<close> between a naive and an aware value
  raise \<open>TypeError\<close>.
\<close>

datatype datetime = Naive int | Aware int

fun dt_less :: "datetime \<Rightarrow> datetime \<Rightarrow> error + bool" where
  "dt_less (Naive a) (Naive b) = Inr (a < b)"
| "dt_less (Aware a) (Aware b) = Inr (a < b)"
| "dt_less (Naive a) (Aware b) = Inl TypeError"
| "dt_less (Aware a) (Naive b) = Inl TypeError"

definition dt_greater :: "datetime \<Rightarrow> datetime \<Rightarrow> error + bool" where
  "dt_greater x y = dt_less y x"

subsection \<open>Library functions taken as parameters\<close>

text \<open>
  Three library functions are parameters of the model, so that every theorem holds for
  whatever they compute: SHA-256 with \<open>hexdigest\<close>; \<open>json.dumps\<close> with sorted keys and
  compact separators, a function of the dictionary alone; and \<open>datetime.fromisoformat\<close>,
  whose accepted formats differ between Python versions (\<open>None\<close> is its \<open>ValueError\<close>).
\<close>

record pylib =
  sha256_hexdigest :: "string \<Rightarrow> string"
  json_dumps_sorted :: "jdict \<Rightarrow> string"
  fromisoformat :: "string \<Rightarrow> datetime option"

section \<open>hash\_chain.py\<close>

definition canonical_json :: "pylib \<Rightarrow> jdict \<Rightarrow> string" where
  "canonical_json py record = json_dumps_sorted py record"

definition sha256_hash :: "pylib \<Rightarrow> string \<Rightarrow> string" where
  "sha256_hash py data = sha256_hexdigest py data"

text \<open>The f-string formats both arguments with \<open>str()\<close>.\<close>

definition genesis_hash :: "pylib \<Rightarrow> jvalue \<Rightarrow> jvalue \<Rightarrow> string" where
  "genesis_hash py authority_id genesis_timestamp =
     sha256_hash py
       (''FIDES-GENESIS-'' @ py_str authority_id @ ''-'' @ py_str genesis_timestamp)"

definition record_hash :: "pylib \<Rightarrow> jdict \<Rightarrow> string" where
  "record_hash py record = sha256_hash py (canonical_json py record)"

definition compute_previous_hash ::
    "pylib \<Rightarrow> jvalue \<Rightarrow> jvalue \<Rightarrow> jdict option \<Rightarrow> string" where
  "compute_previous_hash py authority_id record_timestamp previous_record =
     (case previous_record of
        None \<Rightarrow> genesis_hash py authority_id record_timestamp
      | Some r \<Rightarrow> record_hash py r)"

definition verify_chain_link :: "pylib \<Rightarrow> jdict \<Rightarrow> jdict \<Rightarrow> bool" where
  "verify_chain_link py current_record previous_record =
     (let expected_hash = record_hash py previous_record
      in py_get current_record ''previous_record_hash'' = JStr expected_hash)"

definition verify_genesis :: "pylib \<Rightarrow> jdict \<Rightarrow> bool" where
  "verify_genesis py record =
     (let expected = genesis_hash py
                       (py_get_default record ''authority_id'' (JStr []))
                       (py_get_default record ''record_timestamp'' (JStr []))
      in py_get record ''previous_record_hash'' = JStr expected)"

section \<open>ledger.py\<close>

text \<open>
  The ledger is the content of the two tables in insertion order: the records (each row
  holds the record as JSON, which \<open>json.loads\<close> gives back unchanged) and the payments.
\<close>

record payment =
  decision_id :: string
  beneficiary :: string
  currency :: string
  pvalue :: string
  payment_date :: string

record payment_row = payment +
  payment_id :: string

record ledger =
  records :: "jdict list"
  payments :: "payment_row list"

definition empty_ledger :: ledger where
  "empty_ledger = \<lparr>records = [], payments = []\<rparr>"

text \<open>
  What a column of the \<open>records\<close> table holds for a bound value: the columns have TEXT
  affinity, so an integer is stored as its decimal text (a boolean is bound as 0 or 1);
  \<open>None\<close> is NULL, which equals nothing. A list cannot be bound at all, so no row holds one.
\<close>

fun sql_text :: "jvalue \<Rightarrow> string option" where
  "sql_text JNull = None"
| "sql_text (JBool b) = Some (if b then ''1'' else ''0'')"
| "sql_text (JInt i) = Some (str_int i)"
| "sql_text (JStr s) = Some s"
| "sql_text (JList xs) = None"

definition col_record_type :: "jdict \<Rightarrow> string option" where
  "col_record_type record = sql_text (py_get_default record ''record_type'' (JStr ''DR''))"

definition col_decision_id :: "jdict \<Rightarrow> string option" where
  "col_decision_id record = sql_text (py_get record ''decision_id'')"

definition col_target_decision_id :: "jdict \<Rightarrow> string option" where
  "col_target_decision_id record = sql_text (py_get record ''target_decision_id'')"

text \<open>
  The INSERT of \<open>append_record\<close> is refused when a bound value is a list or an integer
  outside 64 bits, or when a NOT NULL column (record\_type, authority\_id,
  previous\_record\_hash, record\_timestamp) would be NULL.
\<close>

fun sqlite_bindable :: "jvalue \<Rightarrow> bool" where
  "sqlite_bindable (JList xs) = False"
| "sqlite_bindable (JInt i) = (- (2 ^ 63) \<le> i \<and> i < 2 ^ 63)"
| "sqlite_bindable v = True"

definition insert_accepted :: "jdict \<Rightarrow> bool" where
  "insert_accepted record =
     (let record_type = py_get_default record ''record_type'' (JStr ''DR'');
          decision_id = py_get record ''decision_id'';
          revocation_id = py_get record ''revocation_id'';
          target_decision_id = py_get record ''target_decision_id'';
          authority_id = py_get record ''authority_id'';
          previous_record_hash = py_get record ''previous_record_hash'';
          record_timestamp = py_get record ''record_timestamp''
      in list_all sqlite_bindable
           [record_type, decision_id, revocation_id, target_decision_id,
            authority_id, previous_record_hash, record_timestamp] \<and>
         record_type \<noteq> JNull \<and> authority_id \<noteq> JNull \<and>
         previous_record_hash \<noteq> JNull \<and> record_timestamp \<noteq> JNull)"

definition get_last_record :: "ledger \<Rightarrow> jdict option" where
  "get_last_record L = (if records L = [] then None else Some (last (records L)))"

definition get_record_count :: "ledger \<Rightarrow> nat" where
  "get_record_count L = length (records L)"

text \<open>
  \<open>append_record\<close> returns the hash or the exception, and the ledger as the call leaves
  it. In the second branch the count is not 0, so \<open>last_record\<close> is a record.
\<close>

definition append_record :: "pylib \<Rightarrow> ledger \<Rightarrow> jdict \<Rightarrow> (error + string) \<times> ledger" where
  "append_record py L record =
     (let last_record = get_last_record L;
          record_count = get_record_count L
      in if record_count = 0 \<and> \<not> verify_genesis py record
           then (Inl InvalidGenesisHash, L)
         else if record_count \<noteq> 0 \<and> \<not> verify_chain_link py record (the last_record)
           then (Inl HashChainValidationFailed, L)
         else
           let rec_hash = record_hash py record
           in if \<not> insert_accepted record then (Inl SqliteError, L)
              else (Inr rec_hash, L\<lparr>records := records L @ [record]\<rparr>))"

definition is_decision_row :: "string \<Rightarrow> jdict \<Rightarrow> bool" where
  "is_decision_row did record =
     (col_decision_id record = Some did \<and>
      (col_record_type record = Some ''DR'' \<or> col_record_type record = Some ''SDR''))"

definition is_revocation_row :: "string \<Rightarrow> jdict \<Rightarrow> bool" where
  "is_revocation_row did record =
     (col_target_decision_id record = Some did \<and> col_record_type record = Some ''RR'')"

definition find_decision_record :: "ledger \<Rightarrow> string \<Rightarrow> jdict option" where
  "find_decision_record L did = find (is_decision_row did) (records L)"

definition find_revocation_record :: "ledger \<Rightarrow> string \<Rightarrow> jdict option" where
  "find_revocation_record L did = find (is_revocation_row did) (records L)"

definition is_revoked :: "ledger \<Rightarrow> string \<Rightarrow> bool" where
  "is_revoked L did = (find_revocation_record L did \<noteq> None)"

definition get_all_records :: "ledger \<Rightarrow> jdict list" where
  "get_all_records L = records L"

text \<open>\<open>payment_id\<close> is UNIQUE: a second payment with the same id is refused.\<close>

definition record_payment ::
    "ledger \<Rightarrow> string \<Rightarrow> string \<Rightarrow> string \<Rightarrow> string \<Rightarrow> string \<Rightarrow> string
       \<Rightarrow> (error + unit) \<times> ledger" where
  "record_payment L pid did ben cur val pdate =
     (if pid \<in> set (map payment_id (payments L)) then (Inl SqliteError, L)
      else (Inr (),
            L\<lparr>payments := payments L @
               [\<lparr>decision_id = did, beneficiary = ben, currency = cur, pvalue = val,
                 payment_date = pdate, payment_id = pid\<rparr>]\<rparr>))"

text \<open>
  The loop of \<open>sum_payments\<close>. The source returns \<open>str(total)\<close> and its caller applies
  \<open>Decimal\<close> to that string, which gives \<open>total\<close> back; the model returns \<open>total\<close>.
\<close>

fun sum_loop :: "decimal \<Rightarrow> string list \<Rightarrow> error + decimal" where
  "sum_loop tot [] = Inr tot"
| "sum_loop tot (v # vs) =
     bind_err (Decimal v) (\<lambda>d. bind_err (dec_add tot d) (\<lambda>tot'. sum_loop tot' vs))"

definition sum_payments :: "ledger \<Rightarrow> string \<Rightarrow> error + decimal" where
  "sum_payments L did =
     sum_loop dec_zero (map pvalue (filter (\<lambda>row. decision_id row = did) (payments L)))"

text \<open>
  The loop of \<open>verify_chain_integrity\<close> over \<open>i = 1, ..., len(records) - 1\<close>:
  \<open>prev\<close> is \<open>records[i - 1]\<close> and the head of the list is \<open>records[i]\<close>.
\<close>

fun verify_links :: "pylib \<Rightarrow> jdict \<Rightarrow> jdict list \<Rightarrow> nat \<Rightarrow> bool \<times> nat option" where
  "verify_links py prev [] i = (True, None)"
| "verify_links py prev (r # rs) i =
     (if \<not> verify_chain_link py r prev then (False, Some i)
      else verify_links py r rs (i + 1))"

definition verify_chain_integrity :: "pylib \<Rightarrow> ledger \<Rightarrow> bool \<times> nat option" where
  "verify_chain_integrity py L =
     (case get_all_records L of
        [] \<Rightarrow> (True, None)
      | r0 # rest \<Rightarrow>
          if \<not> verify_genesis py r0 then (False, Some 0)
          else verify_links py r0 rest 1)"

section \<open>records.py\<close>

definition is_uuid_v4 :: "jvalue \<Rightarrow> bool" where
  "is_uuid_v4 v = re_match_uuid (lower (py_str v))"

text \<open>\<open>value.replace('Z', '+00:00')\<close> replaces every \<open>Z\<close>.\<close>

definition replace_Z :: "string \<Rightarrow> string" where
  "replace_Z s = concat (map (\<lambda>c. if c = CHR ''Z'' then ''+00:00'' else [c]) s)"

text \<open>
  \<open>is_iso8601\<close> catches \<open>ValueError\<close> (the text is no timestamp) and \<open>AttributeError\<close>
  (the value is no string and has no \<open>replace\<close>); \<open>parse_date\<close> catches nothing.
\<close>

definition is_iso8601 :: "pylib \<Rightarrow> jvalue \<Rightarrow> bool" where
  "is_iso8601 py v =
     (case v of JStr s \<Rightarrow> fromisoformat py (replace_Z s) \<noteq> None | _ \<Rightarrow> False)"

definition parse_date :: "pylib \<Rightarrow> jvalue \<Rightarrow> error + datetime" where
  "parse_date py v =
     (case v of
        JStr s \<Rightarrow> (case fromisoformat py (replace_Z s) of
                     None \<Rightarrow> Inl DateValueError
                   | Some d \<Rightarrow> Inr d)
      | _ \<Rightarrow> Inl AttributeError)"

text \<open>
  \<open>is_positive_decimal\<close>: the constructor and the comparison are both inside the
  \<open>try\<close>, so a text that is no number and a NaN both give \<open>False\<close>.
\<close>

definition is_positive_decimal :: "jvalue \<Rightarrow> bool" where
  "is_positive_decimal v =
     (case Decimal (py_str v) of
        Inl e \<Rightarrow> False
      | Inr d \<Rightarrow> (case dec_greater d dec_zero of Inl e \<Rightarrow> False | Inr b \<Rightarrow> b))"

text \<open>The loop over the required fields; \<open>errors\<close> is the list built so far.\<close>

definition field_missing :: "jdict \<Rightarrow> string \<Rightarrow> bool" where
  "field_missing d field = (d field = None \<or> d field = Some JNull)"

fun missing_fields :: "jdict \<Rightarrow> string list \<Rightarrow> string list \<Rightarrow> string list" where
  "missing_fields d [] errors = errors"
| "missing_fields d (field # rest) errors =
     missing_fields d rest
       (if field_missing d field then errors @ [''MISSING_'' @ upper field] else errors)"

definition dr_required :: "string list" where
  "dr_required =
     [''decision_id'', ''authority_id'', ''deciders_id'', ''act_type'',
      ''currency'', ''maximum_value'', ''beneficiary'', ''legal_basis'',
      ''decision_date'', ''previous_record_hash'', ''record_timestamp'',
      ''signatures'']"

definition rr_required :: "string list" where
  "rr_required =
     [''revocation_id'', ''target_decision_id'', ''authority_id'',
      ''deciders_id'', ''revocation_reason'', ''revocation_date'',
      ''previous_record_hash'', ''record_timestamp'', ''signatures'']"

text \<open>
  \<open>validate_dr\<close>. After the required-field check every key read below is present, so
  \<open>dr['k']\<close> and \<open>dr.get('k')\<close> are both \<open>py_get\<close>. The comparison of the two parsed
  dates is outside any \<open>try\<close>: its exception leaves the function.
\<close>

definition validate_dr :: "pylib \<Rightarrow> jdict \<Rightarrow> error + (bool \<times> string list)" where
  "validate_dr py dr =
     (let errors = missing_fields dr dr_required [] in
      if errors \<noteq> [] then Inr (False, errors)
      else
        let errors = (if \<not> is_uuid_v4 (py_get dr ''decision_id'')
                      then errors @ [''INVALID_DECISION_ID''] else errors);
            errors = (if \<not> py_isinstance_list (py_get dr ''deciders_id'') \<or>
                         py_len (py_get dr ''deciders_id'') = 0
                      then errors @ [''INVALID_DECIDERS_ID''] else errors);
            errors = (if \<not> py_isinstance_str (py_get dr ''act_type'') \<or>
                         py_len (py_get dr ''act_type'') = 0
                      then errors @ [''INVALID_ACT_TYPE''] else errors);
            errors = (if \<not> is_positive_decimal (py_get dr ''maximum_value'')
                      then errors @ [''INVALID_MAXIMUM_VALUE''] else errors);
            errors = (if \<not> is_iso8601 py (py_get dr ''decision_date'')
                      then errors @ [''INVALID_DECISION_DATE''] else errors);
            errors = (if \<not> is_iso8601 py (py_get dr ''record_timestamp'')
                      then errors @ [''INVALID_RECORD_TIMESTAMP''] else errors)
        in bind_err
             (if is_iso8601 py (py_get dr ''decision_date'') \<and>
                 is_iso8601 py (py_get dr ''record_timestamp'')
              then bind_err (parse_date py (py_get dr ''decision_date'')) (\<lambda>dd.
                   bind_err (parse_date py (py_get dr ''record_timestamp'')) (\<lambda>rt.
                   bind_err (dt_greater dd rt) (\<lambda>after.
                   Inr (if after then errors @ [''DECISION_DATE_AFTER_RECORD_TIMESTAMP'']
                        else errors))))
              else Inr errors)
             (\<lambda>errors.
                let errors = (if \<not> py_isinstance_list (py_get dr ''signatures'') \<or>
                                 py_len (py_get dr ''signatures'') = 0
                              then errors @ [''INVALID_SIGNATURES''] else errors);
                    errors = (if py_isinstance_list (py_get dr ''deciders_id'') \<and>
                                 py_isinstance_list (py_get dr ''signatures'') \<and>
                                 py_len (py_get dr ''deciders_id'') \<noteq>
                                   py_len (py_get dr ''signatures'')
                              then errors @ [''DECIDERS_SIGNATURES_MISMATCH''] else errors)
                in Inr (errors = [], errors)))"

definition validate_rr :: "pylib \<Rightarrow> jdict \<Rightarrow> bool \<times> string list" where
  "validate_rr py rr =
     (let errors = missing_fields rr rr_required [] in
      if errors \<noteq> [] then (False, errors)
      else
        let errors = (if \<not> is_uuid_v4 (py_get rr ''revocation_id'')
                      then errors @ [''INVALID_REVOCATION_ID''] else errors);
            errors = (if \<not> is_uuid_v4 (py_get rr ''target_decision_id'')
                      then errors @ [''INVALID_TARGET_DECISION_ID''] else errors);
            errors = (if \<not> py_isinstance_list (py_get rr ''deciders_id'') \<or>
                         py_len (py_get rr ''deciders_id'') = 0
                      then errors @ [''INVALID_DECIDERS_ID''] else errors);
            errors = (if \<not> is_iso8601 py (py_get rr ''revocation_date'')
                      then errors @ [''INVALID_REVOCATION_DATE''] else errors);
            errors = (if \<not> is_iso8601 py (py_get rr ''record_timestamp'')
                      then errors @ [''INVALID_RECORD_TIMESTAMP''] else errors);
            errors = (if \<not> py_isinstance_list (py_get rr ''signatures'') \<or>
                         py_len (py_get rr ''signatures'') = 0
                      then errors @ [''INVALID_SIGNATURES''] else errors)
        in (errors = [], errors))"

text \<open>
  The two factory functions. \<open>uuid4\<close> and \<open>now\<close> are what \<open>generate_uuid()\<close> and
  \<open>current_timestamp()\<close> return in this call. The arguments have the types of the
  signature: strings, lists of strings, and optional strings.
\<close>

definition strs :: "string list \<Rightarrow> jvalue" where
  "strs xs = JList (map JStr xs)"

definition build_dr ::
    "string \<Rightarrow> string \<Rightarrow> string list \<Rightarrow> string \<Rightarrow> string \<Rightarrow> string \<Rightarrow> string \<Rightarrow> string
       \<Rightarrow> string \<Rightarrow> string \<Rightarrow> string \<Rightarrow> string list \<Rightarrow> jdict" where
  "build_dr did authority_id deciders_id act_type cur maximum_value ben legal_basis
            decision_date previous_hash record_timestamp signatures =
     map_of
       [(''record_type'', JStr ''DR''),
        (''decision_id'', JStr did),
        (''authority_id'', JStr authority_id),
        (''deciders_id'', strs deciders_id),
        (''act_type'', JStr act_type),
        (''currency'', JStr cur),
        (''maximum_value'', JStr maximum_value),
        (''beneficiary'', JStr ben),
        (''legal_basis'', JStr legal_basis),
        (''decision_date'', JStr decision_date),
        (''previous_record_hash'', JStr previous_hash),
        (''record_timestamp'', JStr record_timestamp),
        (''signatures'', strs signatures)]"

definition create_decision_record ::
    "pylib \<Rightarrow> string \<Rightarrow> string \<Rightarrow> ledger \<Rightarrow> string \<Rightarrow> string list \<Rightarrow> string \<Rightarrow> string
       \<Rightarrow> string \<Rightarrow> string \<Rightarrow> string \<Rightarrow> string \<Rightarrow> string list \<Rightarrow> string option
       \<Rightarrow> string option \<Rightarrow> (error + jdict) \<times> ledger" where
  "create_decision_record py uuid4 now L authority_id deciders_id act_type cur
       maximum_value ben legal_basis decision_date signatures did_opt record_timestamp_opt =
     (let did = (case did_opt of None \<Rightarrow> uuid4 | Some d \<Rightarrow> d);
          record_timestamp = (case record_timestamp_opt of None \<Rightarrow> now | Some t \<Rightarrow> t);
          recs = get_all_records L;
          previous_record = (if recs \<noteq> [] then Some (last recs) else None);
          previous_hash = compute_previous_hash py (JStr authority_id)
                            (JStr record_timestamp) previous_record;
          dr = build_dr did authority_id deciders_id act_type cur maximum_value ben
                 legal_basis decision_date previous_hash record_timestamp signatures
      in case validate_dr py dr of
           Inl e \<Rightarrow> (Inl e, L)
         | Inr (valid, errors) \<Rightarrow>
             if \<not> valid then (Inl (InvalidDecisionRecord errors), L)
             else (case append_record py L dr of
                     (Inl e, L') \<Rightarrow> (Inl e, L')
                   | (Inr h, L') \<Rightarrow> (Inr dr, L')))"

definition build_rr ::
    "string \<Rightarrow> string \<Rightarrow> string \<Rightarrow> string list \<Rightarrow> string \<Rightarrow> string \<Rightarrow> string \<Rightarrow> string
       \<Rightarrow> string list \<Rightarrow> jdict" where
  "build_rr revocation_id target_decision_id authority_id deciders_id revocation_reason
            revocation_date previous_hash record_timestamp signatures =
     map_of
       [(''record_type'', JStr ''RR''),
        (''revocation_id'', JStr revocation_id),
        (''target_decision_id'', JStr target_decision_id),
        (''authority_id'', JStr authority_id),
        (''deciders_id'', strs deciders_id),
        (''revocation_reason'', JStr revocation_reason),
        (''revocation_date'', JStr revocation_date),
        (''previous_record_hash'', JStr previous_hash),
        (''record_timestamp'', JStr record_timestamp),
        (''signatures'', strs signatures)]"

definition create_revocation_record ::
    "pylib \<Rightarrow> string \<Rightarrow> string \<Rightarrow> ledger \<Rightarrow> string \<Rightarrow> string \<Rightarrow> string list \<Rightarrow> string
       \<Rightarrow> string list \<Rightarrow> string option \<Rightarrow> string option \<Rightarrow> string option
       \<Rightarrow> (error + jdict) \<times> ledger" where
  "create_revocation_record py uuid4 now L target_decision_id authority_id deciders_id
       revocation_reason signatures revocation_id_opt revocation_date_opt
       record_timestamp_opt =
     (let target = find_decision_record L target_decision_id in
      if target = None then (Inl (TargetDecisionNotFound target_decision_id), L)
      else if is_revoked L target_decision_id
        then (Inl (DecisionAlreadyRevoked target_decision_id), L)
      else
        let revocation_id = (case revocation_id_opt of None \<Rightarrow> uuid4 | Some r \<Rightarrow> r);
            record_timestamp = (case record_timestamp_opt of None \<Rightarrow> now | Some t \<Rightarrow> t);
            revocation_date =
              (case revocation_date_opt of None \<Rightarrow> record_timestamp | Some d \<Rightarrow> d);
            recs = get_all_records L;
            previous_record = (if recs \<noteq> [] then Some (last recs) else None);
            previous_hash = compute_previous_hash py (JStr authority_id)
                              (JStr record_timestamp) previous_record;
            rr = build_rr revocation_id target_decision_id authority_id deciders_id
                   revocation_reason revocation_date previous_hash record_timestamp signatures
        in case validate_rr py rr of
             (valid, errors) \<Rightarrow>
               if \<not> valid then (Inl (InvalidRevocationRecord errors), L)
               else (case append_record py L rr of
                       (Inl e, L') \<Rightarrow> (Inl e, L')
                     | (Inr h, L') \<Rightarrow> (Inr rr, L')))"

section \<open>verify.py\<close>

text \<open>
  \<open>is_payment_authorized\<close>, statement by statement. Only the two \<open>Decimal\<close> constructions
  of step 7 are inside a \<open>try\<close>; an exception raised anywhere else leaves the function and
  is the \<open>Inl\<close> result here.
\<close>

definition is_payment_authorized :: "pylib \<Rightarrow> ledger \<Rightarrow> payment \<Rightarrow> error + bool" where
  "is_payment_authorized py L p =
     (case find_decision_record L (decision_id p) of
        None \<Rightarrow> Inr False
      | Some dr \<Rightarrow>
          if is_revoked L (decision_id p) then Inr False
          else
            bind_err (validate_dr py dr) (\<lambda>(valid, errs).
            if \<not> valid then Inr False
            else if \<not> is_iso8601 py (JStr (payment_date p)) then Inr False
            else if \<not> is_iso8601 py (py_get_default dr ''decision_date'' (JStr [])) then Inr False
            else
              bind_err (parse_date py (JStr (payment_date p))) (\<lambda>payment_dt.
              bind_err (py_index dr ''decision_date'') (\<lambda>dd.
              bind_err (parse_date py dd) (\<lambda>decision_dt.
              bind_err (dt_less payment_dt decision_dt) (\<lambda>before.
              if before then Inr False
              else if JStr (beneficiary p) \<noteq> py_get dr ''beneficiary'' then Inr False
              else if JStr (currency p) \<noteq> py_get dr ''currency'' then Inr False
              else
                (case Decimal (pvalue p) of
                   Inl e \<Rightarrow> Inr False
                 | Inr payment_value \<Rightarrow>
                     (case Decimal (py_str (py_get_default dr ''maximum_value'' (JStr ''0''))) of
                        Inl e \<Rightarrow> Inr False
                      | Inr maximum_value \<Rightarrow>
                          bind_err (dec_le payment_value dec_zero) (\<lambda>not_positive.
                          if not_positive then Inr False
                          else
                            bind_err (sum_payments L (decision_id p)) (\<lambda>total_paid.
                            bind_err (dec_add total_paid payment_value) (\<lambda>new_total.
                            bind_err (dec_greater new_total maximum_value) (\<lambda>exceeds.
                            if exceeds then Inr False
                            else if py_get dr ''record_type'' = JStr ''SDR'' then
                              (let maximum_term = py_get dr ''maximum_term'' in
                               if py_truthy maximum_term \<and> is_iso8601 py maximum_term then
                                 bind_err (parse_date py maximum_term) (\<lambda>term.
                                 bind_err (dt_greater payment_dt term) (\<lambda>expired.
                                 if expired then Inr False else Inr True))
                               else Inr True)
                            else Inr True))))))))))))"

definition is_payment_authorized_with_reason ::
    "pylib \<Rightarrow> ledger \<Rightarrow> payment \<Rightarrow> error + (bool \<times> string)" where
  "is_payment_authorized_with_reason py L p =
     (case find_decision_record L (decision_id p) of
        None \<Rightarrow> Inr (False, ''RECORD_NOT_FOUND'')
      | Some dr \<Rightarrow>
          if is_revoked L (decision_id p) then Inr (False, ''DECISION_REVOKED'')
          else
            bind_err (validate_dr py dr) (\<lambda>(valid, errs).
            if \<not> valid then Inr (False, ''INVALID_RECORD: '' @ py_str (strs errs))
            else if \<not> is_iso8601 py (JStr (payment_date p))
              then Inr (False, ''INVALID_PAYMENT_DATE'')
            else if \<not> is_iso8601 py (py_get_default dr ''decision_date'' (JStr []))
              then Inr (False, ''INVALID_DECISION_DATE'')
            else
              bind_err (parse_date py (JStr (payment_date p))) (\<lambda>payment_dt.
              bind_err (py_index dr ''decision_date'') (\<lambda>dd.
              bind_err (parse_date py dd) (\<lambda>decision_dt.
              bind_err (dt_less payment_dt decision_dt) (\<lambda>before.
              if before then Inr (False, ''PAYMENT_BEFORE_DECISION'')
              else if JStr (beneficiary p) \<noteq> py_get dr ''beneficiary''
                then Inr (False, ''BENEFICIARY_MISMATCH'')
              else if JStr (currency p) \<noteq> py_get dr ''currency''
                then Inr (False, ''CURRENCY_MISMATCH'')
              else
                (case Decimal (pvalue p) of
                   Inl e \<Rightarrow> Inr (False, ''INVALID_NUMERIC_VALUE'')
                 | Inr payment_value \<Rightarrow>
                     (case Decimal (py_str (py_get_default dr ''maximum_value'' (JStr ''0''))) of
                        Inl e \<Rightarrow> Inr (False, ''INVALID_NUMERIC_VALUE'')
                      | Inr maximum_value \<Rightarrow>
                          bind_err (dec_le payment_value dec_zero) (\<lambda>not_positive.
                          if not_positive then Inr (False, ''INVALID_PAYMENT_VALUE'')
                          else
                            bind_err (sum_payments L (decision_id p)) (\<lambda>total_paid.
                            bind_err (dec_add total_paid payment_value) (\<lambda>new_total.
                            bind_err (dec_greater new_total maximum_value) (\<lambda>exceeds.
                            if exceeds then Inr (False, ''EXCEEDS_MAXIMUM_VALUE'')
                            else if py_get dr ''record_type'' = JStr ''SDR'' then
                              (let maximum_term = py_get dr ''maximum_term'' in
                               if py_truthy maximum_term \<and> is_iso8601 py maximum_term then
                                 bind_err (parse_date py maximum_term) (\<lambda>term.
                                 bind_err (dt_greater payment_dt term) (\<lambda>expired.
                                 if expired then Inr (False, ''EXCEPTION_EXPIRED'')
                                 else Inr (True, ''AUTHORIZED'')))
                               else Inr (True, ''AUTHORIZED''))
                            else Inr (True, ''AUTHORIZED'')))))))))))))"

section \<open>A library instance for evaluating examples\<close>

text \<open>
  To run the model on concrete inputs the three library parameters need values.
  \<open>basic_fromisoformat\<close> reads the formats \<open>YYYY-MM-DD\<close> and \<open>YYYY-MM-DD?HH:MM:SS\<close>
  (\<open>?\<close> any one character), the second optionally followed by a UTC offset \<open>+HH:MM\<close> or
  \<open>-HH:MM\<close>, and refuses every other text; on these formats it gives what every Python
  from 3.7 on gives: a naive value without the offset, an aware value with it.
  The digest and the serialisation are stand-ins; no example depends on what they are.
\<close>

definition two_digits :: "string \<Rightarrow> int option" where
  "two_digits s = (if length s = 2 \<and> list_all is_digit s then Some (digits_val s) else None)"

definition is_leap :: "int \<Rightarrow> bool" where
  "is_leap y = (y mod 4 = 0 \<and> (y mod 100 \<noteq> 0 \<or> y mod 400 = 0))"

definition days_in_month :: "int \<Rightarrow> int \<Rightarrow> int" where
  "days_in_month y m =
     (if m = 2 then (if is_leap y then 29 else 28)
      else if m = 4 \<or> m = 6 \<or> m = 9 \<or> m = 11 then 30 else 31)"

definition days_before_year :: "int \<Rightarrow> int" where
  "days_before_year y = (let z = y - 1 in z * 365 + z div 4 - z div 100 + z div 400)"

definition days_before_month :: "int \<Rightarrow> int \<Rightarrow> int" where
  "days_before_month y m = sum_list (map (days_in_month y) [1..m - 1])"

text \<open>The date part: the proleptic Gregorian ordinal of the day, as \<open>toordinal()\<close>.\<close>

definition parse_ymd :: "string \<Rightarrow> int option" where
  "parse_ymd s =
     (if length s = 10 \<and> s ! 4 = CHR ''-'' \<and> s ! 7 = CHR ''-'' \<and>
         list_all is_digit (take 4 s)
      then (case (two_digits (take 2 (drop 5 s)), two_digits (drop 8 s)) of
              (Some m, Some d) \<Rightarrow>
                (let y = digits_val (take 4 s) in
                 if 1 \<le> y \<and> 1 \<le> m \<and> m \<le> 12 \<and> 1 \<le> d \<and> d \<le> days_in_month y m
                 then Some (days_before_year y + days_before_month y m + d)
                 else None)
            | _ \<Rightarrow> None)
      else None)"

text \<open>A time of day \<open>HH:MM:SS\<close> and an offset \<open>+HH:MM\<close> or \<open>-HH:MM\<close>, in seconds.\<close>

definition parse_hms :: "string \<Rightarrow> int option" where
  "parse_hms s =
     (if length s = 8 \<and> s ! 2 = CHR '':'' \<and> s ! 5 = CHR '':''
      then (case (two_digits (take 2 s), two_digits (take 2 (drop 3 s)), two_digits (drop 6 s)) of
              (Some h, Some m, Some sec) \<Rightarrow>
                if h \<le> 23 \<and> m \<le> 59 \<and> sec \<le> 59 then Some (h * 3600 + m * 60 + sec) else None
            | _ \<Rightarrow> None)
      else None)"

definition parse_offset :: "string \<Rightarrow> int option" where
  "parse_offset s =
     (if length s = 6 \<and> (s ! 0 = CHR ''+'' \<or> s ! 0 = CHR ''-'') \<and> s ! 3 = CHR '':''
      then (case (two_digits (take 2 (drop 1 s)), two_digits (drop 4 s)) of
              (Some h, Some m) \<Rightarrow>
                if h \<le> 23 \<and> m \<le> 59
                then Some ((if s ! 0 = CHR ''-'' then - 1 else 1) * (h * 3600 + m * 60))
                else None
            | _ \<Rightarrow> None)
      else None)"

definition micros :: "int \<Rightarrow> int \<Rightarrow> int" where
  "micros day secs = (day * 86400 + secs) * 1000000"

definition basic_fromisoformat :: "string \<Rightarrow> datetime option" where
  "basic_fromisoformat s =
     (case parse_ymd (take 10 s) of
        None \<Rightarrow> None
      | Some day \<Rightarrow>
          if length s = 10 then Some (Naive (micros day 0))
          else (case parse_hms (take 8 (drop 11 s)) of
                  None \<Rightarrow> None
                | Some secs \<Rightarrow>
                    if length s = 19 then Some (Naive (micros day secs))
                    else (case parse_offset (drop 19 s) of
                            None \<Rightarrow> None
                          | Some off \<Rightarrow> Some (Aware (micros day (secs - off))))))"

definition example_fields :: "string list" where
  "example_fields = ''record_type'' # ''revocation_id'' # ''target_decision_id'' #
     ''revocation_reason'' # ''revocation_date'' # ''maximum_term'' # dr_required"

definition example_lib :: pylib where
  "example_lib =
     \<lparr>sha256_hexdigest = (\<lambda>data. ''sha256:'' @ data),
      json_dumps_sorted = (\<lambda>d. concat (map (\<lambda>k. k @ ''='' @ py_str (py_get d k) @ '';'')
                                             example_fields)),
      fromisoformat = basic_fromisoformat\<rparr>"

section \<open>Notions used to state the properties\<close>

text \<open>
  The chain check of \<open>append_record\<close> fails: the ledger is empty and the record fails the
  genesis check, or the ledger is not empty and the record does not link to its last record.
\<close>

definition fails_chain_check :: "pylib \<Rightarrow> ledger \<Rightarrow> jdict \<Rightarrow> bool" where
  "fails_chain_check py L r =
     (if records L = [] then \<not> verify_genesis py r
      else \<not> verify_chain_link py r (last (records L)))"

text \<open>The two exceptions of the chain check (the spec's ChainError).\<close>

definition is_chain_error :: "error \<Rightarrow> bool" where
  "is_chain_error e = (e = InvalidGenesisHash \<or> e = HashChainValidationFailed)"

text \<open>
  The ledgers built solely through the factory: a new ledger, and what any call of
  \<open>create_decision_record\<close> or \<open>create_revocation_record\<close> leaves, whether it returns or
  raises. Recording payments in between does not touch the chain and is allowed too.
\<close>

inductive factory_built :: "pylib \<Rightarrow> ledger \<Rightarrow> bool" for py :: pylib where
  fb_new: "factory_built py empty_ledger"
| fb_decision:
    "factory_built py L \<Longrightarrow>
     L' = snd (create_decision_record py uuid4 now L authority_id deciders_id act_type cur
                 maximum_value ben legal_basis decision_date signatures did_opt ts_opt) \<Longrightarrow>
     factory_built py L'"
| fb_revocation:
    "factory_built py L \<Longrightarrow>
     L' = snd (create_revocation_record py uuid4 now L target_decision_id authority_id
                 deciders_id revocation_reason signatures rid_opt rdate_opt ts_opt) \<Longrightarrow>
     factory_built py L'"
| fb_payment:
    "factory_built py L \<Longrightarrow>
     L' = snd (record_payment L pid did ben cur val pdate) \<Longrightarrow>
     factory_built py L'"

text \<open>
  The body of \<open>is_payment_authorized\<close> cut at its steps, to reason about one step at a
  time: step 8 alone, step 7 followed by step 8, and steps 4 to 6 followed by these.
  \<open>is_payment_authorized_steps\<close> below shows that the function is their composition.
\<close>

definition step8 :: "pylib \<Rightarrow> jdict \<Rightarrow> datetime \<Rightarrow> error + bool" where
  "step8 py dr payment_dt =
     (if py_get dr ''record_type'' = JStr ''SDR'' then
        (let maximum_term = py_get dr ''maximum_term'' in
         if py_truthy maximum_term \<and> is_iso8601 py maximum_term then
           bind_err (parse_date py maximum_term) (\<lambda>term.
           bind_err (dt_greater payment_dt term) (\<lambda>expired.
           if expired then Inr False else Inr True))
         else Inr True)
      else Inr True)"

definition step7 :: "pylib \<Rightarrow> ledger \<Rightarrow> payment \<Rightarrow> jdict \<Rightarrow> datetime \<Rightarrow> error + bool" where
  "step7 py L p dr payment_dt =
     (case Decimal (pvalue p) of
        Inl e \<Rightarrow> Inr False
      | Inr payment_value \<Rightarrow>
          (case Decimal (py_str (py_get_default dr ''maximum_value'' (JStr ''0''))) of
             Inl e \<Rightarrow> Inr False
           | Inr maximum_value \<Rightarrow>
               bind_err (dec_le payment_value dec_zero) (\<lambda>not_positive.
               if not_positive then Inr False
               else
                 bind_err (sum_payments L (decision_id p)) (\<lambda>total_paid.
                 bind_err (dec_add total_paid payment_value) (\<lambda>new_total.
                 bind_err (dec_greater new_total maximum_value) (\<lambda>exceeds.
                 if exceeds then Inr False
                 else step8 py dr payment_dt))))))"

definition steps4to6 :: "pylib \<Rightarrow> ledger \<Rightarrow> payment \<Rightarrow> jdict \<Rightarrow> error + bool" where
  "steps4to6 py L p dr =
     (if \<not> is_iso8601 py (JStr (payment_date p)) then Inr False
      else if \<not> is_iso8601 py (py_get_default dr ''decision_date'' (JStr [])) then Inr False
      else
        bind_err (parse_date py (JStr (payment_date p))) (\<lambda>payment_dt.
        bind_err (py_index dr ''decision_date'') (\<lambda>dd.
        bind_err (parse_date py dd) (\<lambda>decision_dt.
        bind_err (dt_less payment_dt decision_dt) (\<lambda>before.
        if before then Inr False
        else if JStr (beneficiary p) \<noteq> py_get dr ''beneficiary'' then Inr False
        else if JStr (currency p) \<noteq> py_get dr ''currency'' then Inr False
        else step7 py L p dr payment_dt)))))"

text \<open>The same cuts of \<open>is_payment_authorized_with_reason\<close>.\<close>

definition step8r :: "pylib \<Rightarrow> jdict \<Rightarrow> datetime \<Rightarrow> error + (bool \<times> string)" where
  "step8r py dr payment_dt =
     (if py_get dr ''record_type'' = JStr ''SDR'' then
        (let maximum_term = py_get dr ''maximum_term'' in
         if py_truthy maximum_term \<and> is_iso8601 py maximum_term then
           bind_err (parse_date py maximum_term) (\<lambda>term.
           bind_err (dt_greater payment_dt term) (\<lambda>expired.
           if expired then Inr (False, ''EXCEPTION_EXPIRED'')
           else Inr (True, ''AUTHORIZED'')))
         else Inr (True, ''AUTHORIZED''))
      else Inr (True, ''AUTHORIZED''))"

definition step7r ::
    "pylib \<Rightarrow> ledger \<Rightarrow> payment \<Rightarrow> jdict \<Rightarrow> datetime \<Rightarrow> error + (bool \<times> string)" where
  "step7r py L p dr payment_dt =
     (case Decimal (pvalue p) of
        Inl e \<Rightarrow> Inr (False, ''INVALID_NUMERIC_VALUE'')
      | Inr payment_value \<Rightarrow>
          (case Decimal (py_str (py_get_default dr ''maximum_value'' (JStr ''0''))) of
             Inl e \<Rightarrow> Inr (False, ''INVALID_NUMERIC_VALUE'')
           | Inr maximum_value \<Rightarrow>
               bind_err (dec_le payment_value dec_zero) (\<lambda>not_positive.
               if not_positive then Inr (False, ''INVALID_PAYMENT_VALUE'')
               else
                 bind_err (sum_payments L (decision_id p)) (\<lambda>total_paid.
                 bind_err (dec_add total_paid payment_value) (\<lambda>new_total.
                 bind_err (dec_greater new_total maximum_value) (\<lambda>exceeds.
                 if exceeds then Inr (False, ''EXCEEDS_MAXIMUM_VALUE'')
                 else step8r py dr payment_dt))))))"

definition steps4to6r ::
    "pylib \<Rightarrow> ledger \<Rightarrow> payment \<Rightarrow> jdict \<Rightarrow> error + (bool \<times> string)" where
  "steps4to6r py L p dr =
     (if \<not> is_iso8601 py (JStr (payment_date p))
        then Inr (False, ''INVALID_PAYMENT_DATE'')
      else if \<not> is_iso8601 py (py_get_default dr ''decision_date'' (JStr []))
        then Inr (False, ''INVALID_DECISION_DATE'')
      else
        bind_err (parse_date py (JStr (payment_date p))) (\<lambda>payment_dt.
        bind_err (py_index dr ''decision_date'') (\<lambda>dd.
        bind_err (parse_date py dd) (\<lambda>decision_dt.
        bind_err (dt_less payment_dt decision_dt) (\<lambda>before.
        if before then Inr (False, ''PAYMENT_BEFORE_DECISION'')
        else if JStr (beneficiary p) \<noteq> py_get dr ''beneficiary''
          then Inr (False, ''BENEFICIARY_MISMATCH'')
        else if JStr (currency p) \<noteq> py_get dr ''currency''
          then Inr (False, ''CURRENCY_MISMATCH'')
        else step7r py L p dr payment_dt)))))"

text \<open>The boolean of a result of the reason-carrying variant (an exception stays).\<close>

definition outcome :: "error + (bool \<times> string) \<Rightarrow> error + bool" where
  "outcome res = (case res of Inl e \<Rightarrow> Inl e | Inr (authorized, reason) \<Rightarrow> Inr authorized)"

subsection \<open>The validator as the spec words it\<close>

text \<open>
  The spec's \<open>validate\<close>: the codes of the missing required fields if there are any, and
  otherwise the codes of all violated rules, in the order of the rules. A rule is a pair
  of "the record violates it" and its code.
\<close>

definition missing_codes :: "jdict \<Rightarrow> string list \<Rightarrow> string list" where
  "missing_codes d required =
     map (\<lambda>field. ''MISSING_'' @ upper field) (filter (field_missing d) required)"

definition violated_codes :: "(bool \<times> string) list \<Rightarrow> string list" where
  "violated_codes rules = map snd (filter fst rules)"

text \<open>
  The comparison "decision\_date is after record\_timestamp" of \<open>validate_dr\<close>, made only
  when both are valid timestamps; it raises when one is naive and the other aware.
\<close>

definition compare_dates :: "pylib \<Rightarrow> jdict \<Rightarrow> error + bool" where
  "compare_dates py dr =
     (if is_iso8601 py (py_get dr ''decision_date'') \<and>
         is_iso8601 py (py_get dr ''record_timestamp'')
      then bind_err (parse_date py (py_get dr ''decision_date'')) (\<lambda>dd.
           bind_err (parse_date py (py_get dr ''record_timestamp'')) (\<lambda>rt.
           dt_greater dd rt))
      else Inr False)"

definition dr_rules :: "pylib \<Rightarrow> jdict \<Rightarrow> (bool \<times> string) list" where
  "dr_rules py dr =
     [(\<not> is_uuid_v4 (py_get dr ''decision_id''), ''INVALID_DECISION_ID''),
      (\<not> py_isinstance_list (py_get dr ''deciders_id'') \<or>
         py_len (py_get dr ''deciders_id'') = 0, ''INVALID_DECIDERS_ID''),
      (\<not> py_isinstance_str (py_get dr ''act_type'') \<or>
         py_len (py_get dr ''act_type'') = 0, ''INVALID_ACT_TYPE''),
      (\<not> is_positive_decimal (py_get dr ''maximum_value''), ''INVALID_MAXIMUM_VALUE''),
      (\<not> is_iso8601 py (py_get dr ''decision_date''), ''INVALID_DECISION_DATE''),
      (\<not> is_iso8601 py (py_get dr ''record_timestamp''), ''INVALID_RECORD_TIMESTAMP''),
      (compare_dates py dr = Inr True, ''DECISION_DATE_AFTER_RECORD_TIMESTAMP''),
      (\<not> py_isinstance_list (py_get dr ''signatures'') \<or>
         py_len (py_get dr ''signatures'') = 0, ''INVALID_SIGNATURES''),
      (py_isinstance_list (py_get dr ''deciders_id'') \<and>
         py_isinstance_list (py_get dr ''signatures'') \<and>
         py_len (py_get dr ''deciders_id'') \<noteq> py_len (py_get dr ''signatures''),
       ''DECIDERS_SIGNATURES_MISMATCH'')]"

definition rr_rules :: "pylib \<Rightarrow> jdict \<Rightarrow> (bool \<times> string) list" where
  "rr_rules py rr =
     [(\<not> is_uuid_v4 (py_get rr ''revocation_id''), ''INVALID_REVOCATION_ID''),
      (\<not> is_uuid_v4 (py_get rr ''target_decision_id''), ''INVALID_TARGET_DECISION_ID''),
      (\<not> py_isinstance_list (py_get rr ''deciders_id'') \<or>
         py_len (py_get rr ''deciders_id'') = 0, ''INVALID_DECIDERS_ID''),
      (\<not> is_iso8601 py (py_get rr ''revocation_date''), ''INVALID_REVOCATION_DATE''),
      (\<not> is_iso8601 py (py_get rr ''record_timestamp''), ''INVALID_RECORD_TIMESTAMP''),
      (\<not> py_isinstance_list (py_get rr ''signatures'') \<or>
         py_len (py_get rr ''signatures'') = 0, ''INVALID_SIGNATURES'')]"

definition validate_spec ::
    "string list \<Rightarrow> (bool \<times> string) list \<Rightarrow> jdict \<Rightarrow> bool \<times> string list" where
  "validate_spec required rules d =
     (if missing_codes d required \<noteq> [] then (False, missing_codes d required)
      else (violated_codes rules = [], violated_codes rules))"

subsection \<open>The checks of the authorization engine as the spec words them\<close>

text \<open>
  Checks 1 to 6 of the spec pass for payment \<open>p\<close> and record \<open>dr\<close>: \<open>dr\<close> is the decision
  record of the payment, it is not revoked, it passes validation, both dates are valid
  timestamps with the payment not before the decision, and beneficiary and currency match.
\<close>

definition payment_not_before_decision :: "pylib \<Rightarrow> payment \<Rightarrow> jdict \<Rightarrow> bool" where
  "payment_not_before_decision py p dr =
     (is_iso8601 py (JStr (payment_date p)) \<and> is_iso8601 py (py_get dr ''decision_date'') \<and>
      bind_err (parse_date py (JStr (payment_date p))) (\<lambda>payment_dt.
      bind_err (parse_date py (py_get dr ''decision_date'')) (\<lambda>decision_dt.
      dt_less payment_dt decision_dt)) = Inr False)"

definition passes_checks_1_to_6 :: "pylib \<Rightarrow> ledger \<Rightarrow> payment \<Rightarrow> jdict \<Rightarrow> bool" where
  "passes_checks_1_to_6 py L p dr =
     (find_decision_record L (decision_id p) = Some dr \<and>
      \<not> is_revoked L (decision_id p) \<and>
      validate_dr py dr = Inr (True, []) \<and>
      payment_not_before_decision py p dr \<and>
      JStr (beneficiary p) = py_get dr ''beneficiary'' \<and>
      JStr (currency p) = py_get dr ''currency'')"

text \<open>
  Check 7 in the arithmetic of the code: the value is a \<open>Decimal\<close> greater than zero, and
  \<open>sum_payments(decision_id) + value <= maximum_value\<close>, the sum being the \<open>Decimal\<close> sum
  of the default context.
\<close>

definition within_limit :: "ledger \<Rightarrow> payment \<Rightarrow> jdict \<Rightarrow> bool" where
  "within_limit L p dr =
     (case Decimal (pvalue p) of
        Inl e \<Rightarrow> False
      | Inr v \<Rightarrow>
          dec_greater v dec_zero = Inr True \<and>
          (case Decimal (py_str (py_get dr ''maximum_value'')) of
             Inl e \<Rightarrow> False
           | Inr mx \<Rightarrow>
               bind_err (sum_payments L (decision_id p)) (\<lambda>total_paid.
               bind_err (dec_add total_paid v) (\<lambda>new_total.
               dec_le new_total mx)) = Inr True))"

text \<open>
  Check 7 as the spec words it, in exact arithmetic. An exact decimal is the pair of a
  coefficient \<open>c\<close> and an exponent \<open>e\<close>, the number \<open>c * 10 ^ e\<close>; a sum is never rounded.
  The amount already paid is the exact sum of the values of the payments recorded for
  the decision, each read as the finite decimal that its text denotes.
\<close>

definition exact_add :: "int \<times> int \<Rightarrow> int \<times> int \<Rightarrow> int \<times> int" where
  "exact_add x y =
     (let e = min (snd x) (snd y)
      in (fst x * 10 ^ nat (snd x - e) + fst y * 10 ^ nat (snd y - e), e))"

definition exact_le :: "int \<times> int \<Rightarrow> int \<times> int \<Rightarrow> bool" where
  "exact_le x y =
     (let e = min (snd x) (snd y)
      in fst x * 10 ^ nat (snd x - e) \<le> fst y * 10 ^ nat (snd y - e))"

fun exact_total :: "int \<times> int \<Rightarrow> string list \<Rightarrow> (int \<times> int) option" where
  "exact_total acc [] = Some acc"
| "exact_total acc (v # vs) =
     (case Decimal v of
        Inr (Finite c e) \<Rightarrow> exact_total (exact_add acc (c, e)) vs
      | _ \<Rightarrow> None)"

definition recorded_values :: "ledger \<Rightarrow> string \<Rightarrow> string list" where
  "recorded_values L did = map pvalue (filter (\<lambda>row. decision_id row = did) (payments L))"

definition within_limit_exact :: "ledger \<Rightarrow> payment \<Rightarrow> jdict \<Rightarrow> bool" where
  "within_limit_exact L p dr =
     (case (Decimal (pvalue p), exact_total (0, 0) (recorded_values L (decision_id p)),
            Decimal (py_str (py_get dr ''maximum_value''))) of
        (Inr (Finite cv ev), Some paid, Inr (Finite cm em)) \<Rightarrow>
          0 < cv \<and> exact_le (exact_add paid (cv, ev)) (cm, em)
      | _ \<Rightarrow> False)"

text \<open>
  The sum of two finite decimals is exact under the default context: the exact sum has at
  most 28 digits and its exponent lies in the range of the context. And every sum that
  the loop of \<open>sum_payments\<close> forms over a list of values, from a running total, is exact.
\<close>

fun sum_is_exact :: "decimal \<Rightarrow> decimal \<Rightarrow> bool" where
  "sum_is_exact (Finite c1 e1) (Finite c2 e2) =
     (let e = min e1 e2
      in ndigits (c1 * 10 ^ nat (e1 - e) + c2 * 10 ^ nat (e2 - e)) \<le> prec \<and>
         Etiny \<le> e \<and> e \<le> Etop)"
| "sum_is_exact x y = False"

fun sums_are_exact :: "int \<times> int \<Rightarrow> string list \<Rightarrow> bool" where
  "sums_are_exact acc [] = True"
| "sums_are_exact acc (v # vs) =
     (case Decimal v of
        Inr (Finite c e) \<Rightarrow>
          sum_is_exact (Finite (fst acc) (snd acc)) (Finite c e) \<and>
          sums_are_exact (exact_add acc (c, e)) vs
      | _ \<Rightarrow> False)"

text \<open>
  Check 8: the record is not of type SDR, or its \<open>maximum_term\<close> is absent, empty or no
  valid timestamp, or the payment is not after \<open>maximum_term\<close>.
\<close>

definition term_unusable :: "pylib \<Rightarrow> jdict \<Rightarrow> bool" where
  "term_unusable py dr =
     (\<not> py_truthy (py_get dr ''maximum_term'') \<or> \<not> is_iso8601 py (py_get dr ''maximum_term''))"

definition payment_within_term :: "pylib \<Rightarrow> payment \<Rightarrow> jdict \<Rightarrow> bool" where
  "payment_within_term py p dr =
     (bind_err (parse_date py (JStr (payment_date p))) (\<lambda>payment_dt.
      bind_err (parse_date py (py_get dr ''maximum_term'')) (\<lambda>term.
      dt_greater payment_dt term)) = Inr False)"

definition expiry_ok :: "pylib \<Rightarrow> payment \<Rightarrow> jdict \<Rightarrow> bool" where
  "expiry_ok py p dr =
     (py_get dr ''record_type'' \<noteq> JStr ''SDR'' \<or> term_unusable py dr \<or>
      payment_within_term py p dr)"

subsection \<open>Example inputs\<close>

text \<open>
  The decision record of the repository's tests, as \<open>create_decision_record\<close> builds it on
  a new ledger, and the ledger that holds it.
\<close>

definition example_did :: string where
  "example_did = ''11111111-2222-4333-8444-555555555555''"

definition example_dr :: jdict where
  "example_dr =
     build_dr example_did ''GOV-TEST-001'' [''DECIDER-001''] ''contract'' ''BRL'' ''10000.00''
       ''SUPPLIER-TEST'' ''Test Law'' ''2024-01-01T10:00:00Z''
       (genesis_hash example_lib (JStr ''GOV-TEST-001'') (JStr ''2024-01-01T10:30:00Z''))
       ''2024-01-01T10:30:00Z'' [''SIG-001'']"

definition example_ledger :: ledger where
  "example_ledger = \<lparr>records = [example_dr], payments = []\<rparr>"

definition example_payment :: "string \<Rightarrow> string \<Rightarrow> payment" where
  "example_payment val pdate =
     \<lparr>decision_id = example_did, beneficiary = ''SUPPLIER-TEST'', currency = ''BRL'',
      pvalue = val, payment_date = pdate\<rparr>"

text \<open>
  The revocation record that \<open>create_revocation_record\<close> builds for that decision on
  that ledger, and the ledger after it.
\<close>

definition example_rr :: jdict where
  "example_rr =
     build_rr ''99999999-2222-4333-8444-555555555555'' example_did ''GOV-TEST-001''
       [''DECIDER-001''] ''Contract cancelled'' ''2024-02-01T09:00:00Z''
       (record_hash example_lib example_dr) ''2024-02-01T09:00:00Z'' [''SIG-001'']"

definition revoked_ledger :: ledger where
  "revoked_ledger = \<lparr>records = [example_dr, example_rr], payments = []\<rparr>"

text \<open>The same decision record with a decision date that has no time and no offset.\<close>

definition naive_dr :: jdict where
  "naive_dr = example_dr(''decision_date'' \<mapsto> JStr ''2024-01-01'')"

text \<open>
  The same decision record as a term-limited record (type SDR): one that expires at the
  end of January 2024, and one without \<open>maximum_term\<close>.
\<close>

definition example_sdr :: jdict where
  "example_sdr =
     example_dr(''record_type'' \<mapsto> JStr ''SDR'', ''maximum_term'' \<mapsto> JStr ''2024-01-31T00:00:00Z'')"

definition sdr_ledger :: ledger where
  "sdr_ledger = \<lparr>records = [example_sdr], payments = []\<rparr>"

definition open_sdr :: jdict where
  "open_sdr = example_dr(''record_type'' \<mapsto> JStr ''SDR'')"

definition open_sdr_ledger :: ledger where
  "open_sdr_ledger = \<lparr>records = [open_sdr], payments = []\<rparr>"

text \<open>Payments against the example decision.\<close>

definition ok_payment :: payment where
  "ok_payment = example_payment ''5000.00'' ''2024-01-15T14:00:00Z''"

definition over_payment :: payment where
  "over_payment = example_payment ''15000.00'' ''2024-01-15T14:00:00Z''"

definition naive_payment :: payment where
  "naive_payment = example_payment ''5000.00'' ''2024-01-15''"

definition nan_payment :: payment where
  "nan_payment = example_payment ''NaN'' ''2024-01-15T14:00:00Z''"

definition late_payment :: payment where
  "late_payment = example_payment ''5000.00'' ''2024-02-15T14:00:00Z''"

definition far_payment :: payment where
  "far_payment = example_payment ''5000.00'' ''2030-01-01T00:00:00Z''"

text \<open>The example ledger after a payment of 6000.00, and a payment of the 4000.00 left.\<close>

definition paid_ledger :: ledger where
  "paid_ledger =
     snd (record_payment example_ledger ''PAY-001'' example_did ''SUPPLIER-TEST'' ''BRL''
            ''6000.00'' ''2024-01-15T14:00:00Z'')"

definition boundary_payment :: payment where
  "boundary_payment = example_payment ''4000.00'' ''2024-01-20T14:00:00Z''"

text \<open>
  A payment of \<open>10000.000000000000000000000001\<close> against the example decision, whose
  limit is \<open>10000.00\<close>. And the example ledger after payments of
  \<open>0.0000000000000000000000001\<close> and \<open>9999.99\<close>, with a further payment of \<open>0.01\<close>.
\<close>

definition rounded_payment :: payment where
  "rounded_payment =
     example_payment ''10000.000000000000000000000001'' ''2024-01-15T14:00:00Z''"

definition crumbs_ledger :: ledger where
  "crumbs_ledger =
     snd (record_payment
            (snd (record_payment example_ledger ''PAY-001'' example_did ''SUPPLIER-TEST''
                    ''BRL'' ''0.0000000000000000000000001'' ''2024-01-15T14:00:00Z''))
            ''PAY-002'' example_did ''SUPPLIER-TEST'' ''BRL'' ''9999.99''
            ''2024-01-16T14:00:00Z'')"

definition cent_payment :: payment where
  "cent_payment = example_payment ''0.01'' ''2024-01-20T14:00:00Z''"

section \<open>Basic facts\<close>

lemma bind_err_Inl [simp]: "bind_err (Inl e) f = Inl e"
  by (simp add: bind_err_def)

lemma bind_err_Inr [simp]: "bind_err (Inr x) f = f x"
  by (simp add: bind_err_def)

lemma append_record_fails_chain:
  "fails_chain_check py L r \<Longrightarrow>
     append_record py L r =
       (Inl (if records L = [] then InvalidGenesisHash else HashChainValidationFailed), L)"
  by (simp add: append_record_def fails_chain_check_def get_record_count_def
      get_last_record_def Let_def)

lemma append_record_passes_chain:
  "\<not> fails_chain_check py L r \<Longrightarrow>
     append_record py L r =
       (if insert_accepted r then (Inr (record_hash py r), L\<lparr>records := records L @ [r]\<rparr>)
        else (Inl SqliteError, L))"
  by (cases "records L = []")
     (simp_all add: append_record_def fails_chain_check_def get_record_count_def
        get_last_record_def Let_def)

lemma append_record_cases:
  "append_record py L r = (Inl InvalidGenesisHash, L) \<and>
     records L = [] \<and> \<not> verify_genesis py r \<or>
   append_record py L r = (Inl HashChainValidationFailed, L) \<and>
     records L \<noteq> [] \<and> \<not> verify_chain_link py r (last (records L)) \<or>
   append_record py L r = (Inl SqliteError, L) \<and>
     \<not> fails_chain_check py L r \<and> \<not> insert_accepted r \<or>
   append_record py L r = (Inr (record_hash py r), L\<lparr>records := records L @ [r]\<rparr>) \<and>
     \<not> fails_chain_check py L r \<and> insert_accepted r"
  by (cases "fails_chain_check py L r")
     (auto simp: append_record_fails_chain append_record_passes_chain fails_chain_check_def
        split: if_splits)

section \<open>The steps of the authorization functions\<close>

lemma is_payment_authorized_steps:
  "is_payment_authorized py L p =
     (case find_decision_record L (decision_id p) of
        None \<Rightarrow> Inr False
      | Some dr \<Rightarrow>
          if is_revoked L (decision_id p) then Inr False
          else bind_err (validate_dr py dr) (\<lambda>(valid, errs).
                 if \<not> valid then Inr False else steps4to6 py L p dr))"
  unfolding is_payment_authorized_def steps4to6_def step7_def step8_def
  by (rule refl)

lemma is_payment_authorized_with_reason_steps:
  "is_payment_authorized_with_reason py L p =
     (case find_decision_record L (decision_id p) of
        None \<Rightarrow> Inr (False, ''RECORD_NOT_FOUND'')
      | Some dr \<Rightarrow>
          if is_revoked L (decision_id p) then Inr (False, ''DECISION_REVOKED'')
          else bind_err (validate_dr py dr) (\<lambda>(valid, errs).
                 if \<not> valid then Inr (False, ''INVALID_RECORD: '' @ py_str (strs errs))
                 else steps4to6r py L p dr))"
  unfolding is_payment_authorized_with_reason_def steps4to6r_def step7r_def step8r_def
  by (rule refl)

lemma outcome_simps [simp]:
  "outcome (Inl e) = Inl e" "outcome (Inr (b, s)) = Inr b"
  by (simp_all add: outcome_def)

lemma outcome_bind: "outcome (bind_err m f) = bind_err m (\<lambda>x. outcome (f x))"
  by (cases m) simp_all

lemma outcome_if: "outcome (if c then a else b) = (if c then outcome a else outcome b)"
  by simp

lemma outcome_case_prod:
  "outcome (case x of (a, b) \<Rightarrow> f a b) = (case x of (a, b) \<Rightarrow> outcome (f a b))"
  by (cases x) simp

lemma outcome_step8: "outcome (step8r py dr t) = step8 py dr t"
  by (simp add: step8r_def step8_def Let_def outcome_bind outcome_if cong: if_cong)

lemma outcome_step7: "outcome (step7r py L p dr t) = step7 py L p dr t"
  by (simp add: step7r_def step7_def outcome_bind outcome_if outcome_step8 split: sum.split cong: if_cong)

lemma outcome_steps4to6: "outcome (steps4to6r py L p dr) = steps4to6 py L p dr"
  by (simp add: steps4to6r_def steps4to6_def outcome_bind outcome_if outcome_step7 cong: if_cong)

text \<open>
  C4. For every ledger and payment the reason-carrying variant and the binary variant agree:
  they return the same boolean, and where one raises the other raises the same exception.
\<close>

theorem reason_variant_agrees:
  "outcome (is_payment_authorized_with_reason py L p) = is_payment_authorized py L p"
  by (simp add: is_payment_authorized_steps is_payment_authorized_with_reason_steps
      outcome_bind outcome_if outcome_case_prod outcome_steps4to6 split: option.split
      cong: if_cong prod.case_cong)

section \<open>The ledger\<close>

text \<open>
  C9. When the genesis check or the chain-link check of \<open>append_record\<close> fails, the call
  raises the corresponding error and leaves the ledger, records and payments, as it was.
\<close>

theorem append_record_atomic_on_failure:
  "fails_chain_check py L r \<Longrightarrow>
   snd (append_record py L r) = L \<and>
   fst (append_record py L r) =
     Inl (if records L = [] then InvalidGenesisHash else HashChainValidationFailed)"
  by (simp add: append_record_fails_chain)

text \<open>
  C7. \<open>append_record\<close> raises a chain error exactly when the ledger is empty and the record
  fails the genesis check, or the ledger is not empty and the record's
  \<open>previous_record_hash\<close> is not the hash of the last record. When it returns, it returns
  the record's hash and the record is the new last record, everything before it and the
  payments unchanged. No operation updates or deletes: after \<open>append_record\<close> and after
  \<open>record_payment\<close>, the two operations that change the ledger, the old records and the
  old payments are a prefix of the new ones.
\<close>

theorem append_record_chain_error_iff:
  "((\<exists>e. fst (append_record py L r) = Inl e \<and> is_chain_error e) \<longleftrightarrow>
      (records L = [] \<and> \<not> verify_genesis py r) \<or>
      (records L \<noteq> [] \<and>
         py_get r ''previous_record_hash'' \<noteq> JStr (record_hash py (last (records L))))) \<and>
   (fst (append_record py L r) = Inr h \<longrightarrow>
      h = record_hash py r \<and> records (snd (append_record py L r)) = records L @ [r] \<and>
      payments (snd (append_record py L r)) = payments L) \<and>
   prefix (records L) (records (snd (append_record py L r))) \<and>
   prefix (payments L) (payments (snd (append_record py L r))) \<and>
   prefix (records L) (records (snd (record_payment L pid did ben cur val pdate))) \<and>
   prefix (payments L) (payments (snd (record_payment L pid did ben cur val pdate)))"
  using append_record_cases[of py L r]
  by (auto simp: is_chain_error_def fails_chain_check_def verify_chain_link_def Let_def
      record_payment_def split: if_splits)

section \<open>Chain integrity of factory-built ledgers\<close>

lemma verify_links_snoc:
  "verify_links py prev (rs @ [r]) i =
     (if verify_links py prev rs i = (True, None)
      then (if verify_chain_link py r (last (prev # rs)) then (True, None)
            else (False, Some (i + length rs)))
      else verify_links py prev rs i)"
  by (induction rs arbitrary: prev i) auto

lemma chain_integrity_append:
  assumes "verify_chain_integrity py L = (True, None)"
    and "\<not> fails_chain_check py L r"
  shows "verify_chain_integrity py (L\<lparr>records := records L @ [r]\<rparr>) = (True, None)"
proof (cases "records L")
  case Nil
  with assms(2) show ?thesis
    by (simp add: verify_chain_integrity_def get_all_records_def fails_chain_check_def)
next
  case (Cons r0 rest)
  with assms show ?thesis
    by (simp add: verify_chain_integrity_def get_all_records_def fails_chain_check_def
        verify_links_snoc split: if_splits)
qed

lemma append_record_keeps_integrity:
  "verify_chain_integrity py L = (True, None) \<Longrightarrow>
   verify_chain_integrity py (snd (append_record py L r)) = (True, None)"
  using append_record_cases[of py L r] by (auto simp: chain_integrity_append)

lemma snd_after_append:
  "snd (case x of (Inl e, L') \<Rightarrow> (Inl e, L') | (Inr h, L') \<Rightarrow> (Inr d, L')) = snd x"
  by (cases x) (auto split: sum.splits)

lemma factory_shape_dr:
  "snd (case v of
          Inl e \<Rightarrow> (Inl e, L)
        | Inr (valid, errors) \<Rightarrow>
            if \<not> valid then (Inl (E errors), L)
            else (case append_record py L dr of
                    (Inl e, L') \<Rightarrow> (Inl e, L')
                  | (Inr h, L') \<Rightarrow> (Inr d, L'))) \<in> {L, snd (append_record py L dr)}"
  by (cases v) (auto simp: snd_after_append)

lemma factory_shape_rr:
  "snd (case v of
          (valid, errors) \<Rightarrow>
            if \<not> valid then (Inl (E errors), L)
            else (case append_record py L rr of
                    (Inl e, L') \<Rightarrow> (Inl e, L')
                  | (Inr h, L') \<Rightarrow> (Inr d, L'))) \<in> {L, snd (append_record py L rr)}"
  by (cases v) (auto simp: snd_after_append)

lemma create_decision_record_ledger:
  "\<exists>r. snd (create_decision_record py uuid4 now L a ds at c mv b lb dd sg did ts)
          \<in> {L, snd (append_record py L r)}"
  unfolding create_decision_record_def Let_def
  by (rule exI, rule factory_shape_dr)

lemma create_revocation_record_ledger:
  "\<exists>r. snd (create_revocation_record py uuid4 now L t a ds rs sg rid rd ts)
          \<in> {L, snd (append_record py L r)}"
proof (cases "find_decision_record L t = None")
  case True
  then show ?thesis
    by (simp add: create_revocation_record_def)
next
  case nf: False
  show ?thesis
  proof (cases "is_revoked L t")
    case True
    with nf show ?thesis
      by (simp add: create_revocation_record_def)
  next
    case False
    show ?thesis
      unfolding create_revocation_record_def Let_def
      by (simp only: nf False if_False) (rule exI, rule factory_shape_rr)
  qed
qed

lemma record_payment_records:
  "records (snd (record_payment L pid did ben cur val pdate)) = records L"
  by (simp add: record_payment_def)

lemma verify_chain_integrity_cong:
  "records L' = records L \<Longrightarrow> verify_chain_integrity py L' = verify_chain_integrity py L"
  by (simp add: verify_chain_integrity_def get_all_records_def)

lemma integrity_of_member:
  assumes "verify_chain_integrity py L = (True, None)"
    and "L' \<in> {L, snd (append_record py L r)}"
  shows "verify_chain_integrity py L' = (True, None)"
proof (cases "L' = L")
  case True
  with assms(1) show ?thesis by simp
next
  case False
  with assms(2) have "L' = snd (append_record py L r)" by simp
  with assms(1) show ?thesis by (simp only: append_record_keeps_integrity)
qed

lemma create_decision_record_keeps_integrity:
  assumes "verify_chain_integrity py L = (True, None)"
  shows "verify_chain_integrity py
           (snd (create_decision_record py uuid4 now L a ds at c mv b lb dd sg did ts)) =
         (True, None)"
proof -
  obtain r where "snd (create_decision_record py uuid4 now L a ds at c mv b lb dd sg did ts)
      \<in> {L, snd (append_record py L r)}"
    using create_decision_record_ledger by blast
  with assms show ?thesis by (rule integrity_of_member)
qed

lemma create_revocation_record_keeps_integrity:
  assumes "verify_chain_integrity py L = (True, None)"
  shows "verify_chain_integrity py
           (snd (create_revocation_record py uuid4 now L t a ds rs sg rid rd ts)) =
         (True, None)"
proof -
  obtain r where "snd (create_revocation_record py uuid4 now L t a ds rs sg rid rd ts)
      \<in> {L, snd (append_record py L r)}"
    using create_revocation_record_ledger by blast
  with assms show ?thesis by (rule integrity_of_member)
qed

text \<open>
  C5. Every ledger built solely through the factory (\<open>factory_built\<close>) passes
  \<open>verify_chain_integrity\<close>: the result is valid, with no invalid index.
\<close>

theorem factory_chain_verifies: "factory_built py L \<Longrightarrow> verify_chain_integrity py L = (True, None)"
proof (induction rule: factory_built.induct)
  case fb_new
  show ?case by (simp add: verify_chain_integrity_def get_all_records_def empty_ledger_def)
next
  case (fb_decision L L' uuid4 now a ds at c mv b lb dd sg did ts)
  from fb_decision.IH show ?case
    unfolding fb_decision.hyps(2) by (rule create_decision_record_keeps_integrity)
next
  case (fb_revocation L L' uuid4 now t a ds rs sg rid rd ts)
  from fb_revocation.IH show ?case
    unfolding fb_revocation.hyps(2) by (rule create_revocation_record_keeps_integrity)
next
  case (fb_payment L L' pid did ben cur val pdate)
  have "records L' = records L"
    unfolding fb_payment.hyps(2) by (rule record_payment_records)
  then have "verify_chain_integrity py L' = verify_chain_integrity py L"
    by (rule verify_chain_integrity_cong)
  with fb_payment.IH show ?case by simp
qed

section \<open>Revocation\<close>

lemma find_append_Some: "find P xs = Some x \<Longrightarrow> find P (xs @ ys) = Some x"
  by (induction xs) (auto split: if_splits)

lemma find_append_hit: "P y \<Longrightarrow> find P (xs @ [y]) \<noteq> None"
  by (induction xs) auto

lemma authorized_has_record:
  "is_payment_authorized py L p = Inr True \<Longrightarrow>
   \<exists>dr. find_decision_record L (decision_id p) = Some dr"
  by (cases "find_decision_record L (decision_id p)") (simp_all add: is_payment_authorized_steps)

text \<open>
  C3. If a payment is authorized, and a record of type RR whose \<open>target_decision_id\<close> is
  the payment's \<open>decision_id\<close> is then appended, the same payment is rejected afterwards:
  the function returns \<open>False\<close>.
\<close>

theorem revocation_blocks_payment:
  assumes "is_payment_authorized py L p = Inr True"
    and "py_get r ''record_type'' = JStr ''RR''"
    and "py_get r ''target_decision_id'' = JStr (decision_id p)"
    and "append_record py L r = (Inr h, L')"
  shows "is_payment_authorized py L' p = Inr False"
proof -
  from assms(4) have recs: "records L' = records L @ [r]"
    using append_record_cases[of py L r] by auto
  from assms(1) obtain dr where "find_decision_record L (decision_id p) = Some dr"
    using authorized_has_record by blast
  then have found: "find_decision_record L' (decision_id p) = Some dr"
    by (simp add: find_decision_record_def recs find_append_Some)
  from assms(2) have "r ''record_type'' = Some (JStr ''RR'')"
    by (auto simp: py_get_def split: option.splits)
  with assms(3) have "is_revocation_row (decision_id p) r"
    by (simp add: is_revocation_row_def col_target_decision_id_def col_record_type_def
        py_get_default_def)
  then have "is_revoked L' (decision_id p)"
    by (simp add: is_revoked_def find_revocation_record_def recs find_append_hit)
  with found show ?thesis
    by (simp add: is_payment_authorized_steps)
qed

section \<open>The validators and the spec's validator\<close>

lemma missing_fields_eq:
  "missing_fields d required errors = errors @ missing_codes d required"
  by (induction required arbitrary: errors) (simp_all add: missing_codes_def)

lemma if_snoc: "(if c then xs @ [x] else xs) = xs @ (if c then [x] else [])"
  by simp

lemma violated_codes_Cons:
  "violated_codes ((c, x) # rules) = (if c then [x] else []) @ violated_codes rules"
  by (simp add: violated_codes_def)

lemma violated_codes_Nil: "violated_codes [] = []"
  by (simp add: violated_codes_def)

lemma validate_rr_refines:
  "validate_rr py rr = validate_spec rr_required (rr_rules py rr) rr"
  unfolding validate_rr_def validate_spec_def Let_def missing_fields_eq rr_rules_def
    violated_codes_Cons violated_codes_Nil if_snoc
  by (simp only: append_Nil append_Nil2 append_assoc if_not_P if_P split: if_split) simp

lemma validate_dr_missing:
  "missing_codes dr dr_required \<noteq> [] \<Longrightarrow>
   validate_dr py dr = Inr (False, missing_codes dr dr_required)"
  by (simp add: validate_dr_def missing_fields_eq)

lemma validate_dr_raises:
  assumes "missing_codes dr dr_required = []" and "compare_dates py dr = Inl e"
  shows "validate_dr py dr = Inl e"
proof -
  from assms(2) have both: "is_iso8601 py (py_get dr ''decision_date'') \<and>
      is_iso8601 py (py_get dr ''record_timestamp'')"
    by (simp add: compare_dates_def split: if_splits)
  with assms(2) have cmp: "bind_err (parse_date py (py_get dr ''decision_date'')) (\<lambda>dd.
      bind_err (parse_date py (py_get dr ''record_timestamp'')) (\<lambda>rt. dt_greater dd rt)) = Inl e"
    by (simp add: compare_dates_def)
  have shape: "\<And>A B C F K. bind_err A (\<lambda>a. bind_err B (\<lambda>b. C a b)) = Inl e \<Longrightarrow>
      bind_err (bind_err A (\<lambda>a. bind_err B (\<lambda>b. bind_err (C a b) (\<lambda>x. Inr (F x))))) K = Inl e"
    subgoal for A B C F K
      by (cases A; cases B) (auto simp: bind_err_def split: sum.splits)
    done
  show ?thesis
    unfolding validate_dr_def Let_def missing_fields_eq
    using assms(1) both by (simp split del: if_split add: shape[OF cmp])
qed

lemma validate_dr_returns:
  assumes "missing_codes dr dr_required = []" and "compare_dates py dr = Inr after"
  shows "validate_dr py dr = Inr (validate_spec dr_required (dr_rules py dr) dr)"
proof (cases "is_iso8601 py (py_get dr ''decision_date'') \<and>
      is_iso8601 py (py_get dr ''record_timestamp'')")
  case False
  with assms(2) have "after = False"
    by (auto simp add: compare_dates_def)
  with assms show ?thesis
    unfolding validate_dr_def validate_spec_def Let_def missing_fields_eq dr_rules_def
      violated_codes_Cons violated_codes_Nil if_snoc
    by (simp split del: if_split add: False)
next
  case True
  with assms(2) have cmp: "bind_err (parse_date py (py_get dr ''decision_date'')) (\<lambda>dd.
      bind_err (parse_date py (py_get dr ''record_timestamp'')) (\<lambda>rt. dt_greater dd rt)) = Inr after"
    by (simp add: compare_dates_def)
  have shape: "\<And>A B C F K. bind_err A (\<lambda>a. bind_err B (\<lambda>b. C a b)) = Inr after \<Longrightarrow>
      bind_err (bind_err A (\<lambda>a. bind_err B (\<lambda>b. bind_err (C a b) (\<lambda>x. Inr (F x))))) K = K (F after)"
    subgoal for A B C F K
      by (cases A; cases B) (auto simp: bind_err_def split: sum.splits)
    done
  from True assms show ?thesis
    unfolding validate_dr_def validate_spec_def Let_def missing_fields_eq dr_rules_def
      violated_codes_Cons violated_codes_Nil if_snoc
    by (simp split del: if_split add: shape[OF cmp])
qed

section \<open>When a payment is authorized\<close>

lemma missing_codes_empty_iff:
  "missing_codes d required = [] \<longleftrightarrow> (\<forall>f \<in> set required. \<not> field_missing d f)"
  by (auto simp: missing_codes_def filter_empty_conv)

lemma valid_has_no_missing:
  assumes "validate_dr py dr = Inr (True, errs)"
  shows "missing_codes dr dr_required = []"
proof (rule ccontr)
  assume "missing_codes dr dr_required \<noteq> []"
  then have "validate_dr py dr = Inr (False, missing_codes dr dr_required)"
    by (rule validate_dr_missing)
  with assms show False by simp
qed

lemma valid_has_field:
  assumes "validate_dr py dr = Inr (True, errs)" and "f \<in> set dr_required"
  shows "\<exists>v. dr f = Some v \<and> v \<noteq> JNull"
proof -
  from assms have "\<not> field_missing dr f"
    using valid_has_no_missing missing_codes_empty_iff by blast
  then show ?thesis
    by (cases "dr f") (auto simp: field_missing_def)
qed

lemma step8_ok:
  assumes "parse_date py (JStr (payment_date p)) = Inr a"
  shows "step8 py dr a = Inr True \<longleftrightarrow> expiry_ok py p dr"
  using assms
  by (auto simp: step8_def expiry_ok_def term_unusable_def payment_within_term_def Let_def
      bind_err_def split: sum.splits)

lemma step7_ok:
  assumes "py_get_default dr ''maximum_value'' (JStr ''0'') = py_get dr ''maximum_value''"
  shows "step7 py L p dr a = Inr True \<longleftrightarrow> within_limit L p dr \<and> step8 py dr a = Inr True"
  using assms
  by (auto simp: step7_def within_limit_def dec_le_def dec_greater_def bind_err_def
      split: sum.splits)

lemma steps4to6_ok:
  assumes "payment_not_before_decision py p dr"
    and "dr ''decision_date'' = Some v"
    and "JStr (beneficiary p) = py_get dr ''beneficiary''"
    and "JStr (currency p) = py_get dr ''currency''"
  shows "\<exists>a. parse_date py (JStr (payment_date p)) = Inr a \<and>
             steps4to6 py L p dr = step7 py L p dr a"
proof -
  from assms(2) have get: "py_get dr ''decision_date'' = v"
      "py_get_default dr ''decision_date'' (JStr []) = v"
      "py_index dr ''decision_date'' = Inr v"
    by (simp_all add: py_get_def py_get_default_def py_index_def)
  from assms(1) have iso: "is_iso8601 py (JStr (payment_date p))" "is_iso8601 py v"
    and cmp: "bind_err (parse_date py (JStr (payment_date p))) (\<lambda>payment_dt.
      bind_err (parse_date py v) (\<lambda>decision_dt. dt_less payment_dt decision_dt)) = Inr False"
    by (simp_all add: payment_not_before_decision_def get)
  from cmp obtain a where a: "parse_date py (JStr (payment_date p)) = Inr a"
    by (cases "parse_date py (JStr (payment_date p))") simp_all
  with cmp obtain b where b: "parse_date py v = Inr b"
    by (cases "parse_date py v") simp_all
  with a cmp have lt: "dt_less a b = Inr False" by simp
  have "steps4to6 py L p dr = step7 py L p dr a"
    using assms(3,4) by (simp add: steps4to6_def get iso a b lt)
  with a show ?thesis by blast
qed

lemma authorized_iff:
  assumes "passes_checks_1_to_6 py L p dr"
  shows "is_payment_authorized py L p = Inr True \<longleftrightarrow> within_limit L p dr \<and> expiry_ok py p dr"
proof -
  from assms have found: "find_decision_record L (decision_id p) = Some dr"
    and unrevoked: "\<not> is_revoked L (decision_id p)"
    and valid: "validate_dr py dr = Inr (True, [])"
    and dates: "payment_not_before_decision py p dr"
    and ben: "JStr (beneficiary p) = py_get dr ''beneficiary''"
    and cur: "JStr (currency p) = py_get dr ''currency''"
    by (simp_all add: passes_checks_1_to_6_def)
  obtain v where v: "dr ''decision_date'' = Some v"
    using valid_has_field[OF valid, of "''decision_date''"] by (auto simp: dr_required_def)
  obtain mv where "dr ''maximum_value'' = Some mv"
    using valid_has_field[OF valid, of "''maximum_value''"] by (auto simp: dr_required_def)
  then have mv: "py_get_default dr ''maximum_value'' (JStr ''0'') = py_get dr ''maximum_value''"
    by (simp add: py_get_def py_get_default_def)
  obtain a where a: "parse_date py (JStr (payment_date p)) = Inr a"
    and s: "steps4to6 py L p dr = step7 py L p dr a"
    using steps4to6_ok[OF dates v ben cur] by blast
  have "is_payment_authorized py L p = step7 py L p dr a"
    by (simp add: is_payment_authorized_steps found unrevoked valid s)
  then show ?thesis
    by (simp add: step7_ok[OF mv] step8_ok[OF a])
qed

section \<open>The revocation factory\<close>

lemma build_rr_fields:
  "py_get (build_rr rid tid aid ds reason rdate ph ts sigs) ''previous_record_hash'' = JStr ph"
  "insert_accepted (build_rr rid tid aid ds reason rdate ph ts sigs)"
  by (simp_all add: build_rr_def py_get_def py_get_default_def insert_accepted_def)

lemma found_nonempty: "find_decision_record L tid \<noteq> None \<Longrightarrow> records L \<noteq> []"
  by (auto simp: find_decision_record_def)

lemma append_built_rr:
  assumes "records L \<noteq> []"
  shows "append_record py L (build_rr rid tid aid ds reason rdate
             (record_hash py (last (records L))) ts sigs) =
           (Inr (record_hash py (build_rr rid tid aid ds reason rdate
                   (record_hash py (last (records L))) ts sigs)),
            L\<lparr>records := records L @ [build_rr rid tid aid ds reason rdate
                   (record_hash py (last (records L))) ts sigs]\<rparr>)"
proof -
  have "\<not> fails_chain_check py L (build_rr rid tid aid ds reason rdate
             (record_hash py (last (records L))) ts sigs)"
    using assms by (simp add: fails_chain_check_def verify_chain_link_def build_rr_fields)
  then show ?thesis
    by (simp add: append_record_passes_chain build_rr_fields)
qed

lemma create_revocation_record_unfold:
  "create_revocation_record py uuid4 now L tid aid ds reason sigs rid_opt rdate_opt ts_opt =
     (if find_decision_record L tid = None then (Inl (TargetDecisionNotFound tid), L)
      else if is_revoked L tid then (Inl (DecisionAlreadyRevoked tid), L)
      else
        let ts = (case ts_opt of None \<Rightarrow> now | Some t \<Rightarrow> t);
            rr = build_rr (case rid_opt of None \<Rightarrow> uuid4 | Some r \<Rightarrow> r) tid aid ds reason
                   (case rdate_opt of None \<Rightarrow> ts | Some d \<Rightarrow> d)
                   (record_hash py (last (records L))) ts sigs
        in if fst (validate_rr py rr) then (Inr rr, L\<lparr>records := records L @ [rr]\<rparr>)
           else (Inl (InvalidRevocationRecord (snd (validate_rr py rr))), L))"
proof (cases "find_decision_record L tid = None")
  case True
  then show ?thesis by (simp add: create_revocation_record_def)
next
  case nf: False
  show ?thesis
  proof (cases "is_revoked L tid")
    case True
    with nf show ?thesis by (simp add: create_revocation_record_def)
  next
    case False
    from nf have ne: "records L \<noteq> []" by (rule found_nonempty)
    show ?thesis
      unfolding create_revocation_record_def Let_def
      using nf False ne
      by (simp add: get_all_records_def compute_previous_hash_def append_built_rr
          split: prod.split)
  qed
qed

text \<open>
  C8. \<open>create_revocation_record\<close> raises "Target decision not found" when the ledger has no
  decision record for the target, and "Decision already revoked" when the target has a
  revocation record (the spec's LookupError), leaving the ledger as it was. Otherwise it
  builds the revocation record, linked to the last record of the ledger and with
  \<open>revocation_date\<close> defaulting to \<open>record_timestamp\<close>, validates it, raising with all
  violated codes if it is invalid, and appends it, which then succeeds.
\<close>

theorem create_revocation_record_behaviour:
  "create_revocation_record py uuid4 now L tid aid ds reason sigs rid_opt rdate_opt ts_opt =
     (if find_decision_record L tid = None then (Inl (TargetDecisionNotFound tid), L)
      else if is_revoked L tid then (Inl (DecisionAlreadyRevoked tid), L)
      else
        let ts = (case ts_opt of None \<Rightarrow> now | Some t \<Rightarrow> t);
            rr = build_rr (case rid_opt of None \<Rightarrow> uuid4 | Some r \<Rightarrow> r) tid aid ds reason
                   (case rdate_opt of None \<Rightarrow> ts | Some d \<Rightarrow> d)
                   (record_hash py (last (records L))) ts sigs
        in if fst (validate_rr py rr) then (Inr rr, L\<lparr>records := records L @ [rr]\<rparr>)
           else (Inl (InvalidRevocationRecord (snd (validate_rr py rr))), L))"
  by (rule create_revocation_record_unfold)

section \<open>The spending limit and the term limit\<close>

lemma term_unusable_cases:
  assumes "dr ''maximum_term'' = None \<or> py_get dr ''maximum_term'' = JNull \<or>
           py_get dr ''maximum_term'' = JStr [] \<or>
           \<not> is_iso8601 py (py_get dr ''maximum_term'')"
  shows "term_unusable py dr"
  using assms by (auto simp: term_unusable_def py_get_def)

text \<open>
  C10. For a record of type SDR whose \<open>maximum_term\<close> is absent (or \<open>None\<close>), empty, or
  not a valid timestamp, no term limit is checked: a payment that passes checks 1 to 7 is
  authorized, whatever its date.
\<close>

theorem sdr_without_usable_term_is_not_limited:
  assumes "passes_checks_1_to_6 py L p dr"
    and "within_limit L p dr"
    and "py_get dr ''record_type'' = JStr ''SDR''"
    and "dr ''maximum_term'' = None \<or> py_get dr ''maximum_term'' = JNull \<or>
         py_get dr ''maximum_term'' = JStr [] \<or>
         \<not> is_iso8601 py (py_get dr ''maximum_term'')"
  shows "is_payment_authorized py L p = Inr True"
proof -
  from assms(4) have "term_unusable py dr" by (rule term_unusable_cases)
  then have "expiry_ok py p dr" by (simp add: expiry_ok_def)
  with assms(1,2) show ?thesis by (simp add: authorized_iff)
qed

lemma Etop_le_Emax: "Etop \<le> Emax"
  by (simp add: Etop_def prec_def)

lemma dec_add_exact:
  assumes "sum_is_exact (Finite c1 e1) (Finite c2 e2)"
  shows "dec_add (Finite c1 e1) (Finite c2 e2) =
           Inr (Finite (c1 * 10 ^ nat (e1 - min e1 e2) + c2 * 10 ^ nat (e2 - min e1 e2))
                  (min e1 e2))"
proof -
  define e where "e = min e1 e2"
  define c where "c = c1 * 10 ^ nat (e1 - e) + c2 * 10 ^ nat (e2 - e)"
  from assms have fits: "ndigits c \<le> prec" "Etiny \<le> e" "e \<le> Etop"
    by (simp_all add: Let_def e_def c_def)
  have "context_fix c e = Inr (Finite c e)"
  proof (cases "c = 0")
    case True
    with fits Etop_le_Emax show ?thesis
      by (simp add: context_fix_def)
  next
    case False
    from fits have no_overflow: "\<not> ndigits c + e - prec > Etop"
      by linarith
    from fits have no_rounding: "\<not> e < max (ndigits c + e - prec) Etiny"
      by (simp add: max_def)
    from False no_overflow no_rounding show ?thesis
      by (simp add: context_fix_def Let_def)
  qed
  then show ?thesis
    by (simp add: Let_def e_def c_def)
qed

text \<open>
  Where every sum that the code forms is exact, check 7 of the code is check 7 of the
  spec: a payment that passes checks 1 to 6, against a finite limit, is authorized if and
  only if it is within the limit in exact arithmetic and passes the expiry check.
\<close>

lemma dec_positive_iff: "dec_greater (Finite c e) dec_zero = Inr True \<longleftrightarrow> 0 < c"
  by (simp add: dec_greater_def dec_zero_def Let_def zero_less_mult_iff)

lemma dec_add_exact_pair:
  assumes "sum_is_exact (Finite (fst x) (snd x)) (Finite c e)"
  shows "dec_add (Finite (fst x) (snd x)) (Finite c e) =
           Inr (Finite (fst (exact_add x (c, e))) (snd (exact_add x (c, e))))"
  using dec_add_exact[OF assms] by (simp add: exact_add_def Let_def)

lemma sums_are_exact_snoc:
  assumes "sums_are_exact acc (vs @ [v])"
  shows "\<exists>t c e. exact_total acc vs = Some t \<and>
           sum_loop (Finite (fst acc) (snd acc)) vs = Inr (Finite (fst t) (snd t)) \<and>
           Decimal v = Inr (Finite c e) \<and>
           sum_is_exact (Finite (fst t) (snd t)) (Finite c e)"
  using assms
proof (induction vs arbitrary: acc)
  case Nil
  then show ?case
    by (auto split: sum.splits decimal.splits)
next
  case (Cons w ws)
  from Cons.prems obtain c e where w: "Decimal w = Inr (Finite c e)"
    and ex: "sum_is_exact (Finite (fst acc) (snd acc)) (Finite c e)"
    and rest: "sums_are_exact (exact_add acc (c, e)) (ws @ [v])"
    by (auto split: sum.splits decimal.splits)
  from Cons.IH[OF rest] w dec_add_exact_pair[OF ex] show ?case
    by (simp del: dec_add.simps)
qed

lemma dec_le_exact:
  "dec_le (Finite (fst s) (snd s)) (Finite cm em) = Inr (exact_le s (cm, em))"
  by (simp add: dec_le_def exact_le_def Let_def not_less min.commute)

lemma within_limit_exact_iff:
  assumes mx: "Decimal (py_str (py_get dr ''maximum_value'')) = Inr (Finite cm em)"
    and exact: "sums_are_exact (0, 0) (recorded_values L (decision_id p) @ [pvalue p])"
  shows "within_limit L p dr \<longleftrightarrow> within_limit_exact L p dr"
proof -
  from sums_are_exact_snoc[OF exact] obtain t cv ev where
    t: "exact_total (0, 0) (recorded_values L (decision_id p)) = Some t"
    and s: "sum_loop (Finite 0 0) (recorded_values L (decision_id p)) = Inr (Finite (fst t) (snd t))"
    and v: "Decimal (pvalue p) = Inr (Finite cv ev)"
    and ex: "sum_is_exact (Finite (fst t) (snd t)) (Finite cv ev)"
    by auto
  from s have sp: "sum_payments L (decision_id p) = Inr (Finite (fst t) (snd t))"
    by (simp add: sum_payments_def recorded_values_def dec_zero_def)
  show ?thesis
    by (simp add: within_limit_def within_limit_exact_def v t mx sp dec_add_exact_pair[OF ex]
        dec_le_exact dec_positive_iff del: dec_add.simps)
qed

lemma authorized_iff_exact_limit:
  assumes "passes_checks_1_to_6 py L p dr"
    and "Decimal (py_str (py_get dr ''maximum_value'')) = Inr (Finite cm em)"
    and "sums_are_exact (0, 0) (recorded_values L (decision_id p) @ [pvalue p])"
  shows "is_payment_authorized py L p = Inr True \<longleftrightarrow>
           within_limit_exact L p dr \<and> expiry_ok py p dr"
  using authorized_iff[OF assms(1)] within_limit_exact_iff[OF assms(2,3)] by simp

lemma found_single:
  "is_decision_row did r \<Longrightarrow> find_decision_record \<lparr>records = [r], payments = ps\<rparr> did = Some r"
  by (simp add: find_decision_record_def)

lemma passes_single:
  assumes "is_decision_row (decision_id p) dr"
    and "\<not> is_revocation_row (decision_id p) dr"
    and "validate_dr py dr = Inr (True, [])"
    and "payment_not_before_decision py p dr"
    and "JStr (beneficiary p) = py_get dr ''beneficiary''"
    and "JStr (currency p) = py_get dr ''currency''"
  shows "passes_checks_1_to_6 py \<lparr>records = [dr], payments = ps\<rparr> p dr"
  using assms
  by (simp add: passes_checks_1_to_6_def found_single is_revoked_def find_revocation_record_def)

lemma sdr_passes: "passes_checks_1_to_6 example_lib sdr_ledger late_payment example_sdr"
  unfolding sdr_ledger_def
proof (rule passes_single)
  show "is_decision_row (decision_id late_payment) example_sdr" by code_simp
  show "\<not> is_revocation_row (decision_id late_payment) example_sdr" by code_simp
  show "validate_dr example_lib example_sdr = Inr (True, [])" by code_simp
  show "payment_not_before_decision example_lib late_payment example_sdr" by code_simp
  show "JStr (beneficiary late_payment) = py_get example_sdr ''beneficiary''" by code_simp
  show "JStr (currency late_payment) = py_get example_sdr ''currency''" by code_simp
qed

text \<open>
  Step 8 on a term-limited record that has expired: a payment that passes checks 1 to 6
  and is within the limit is rejected.
\<close>

lemma expired_sdr_payment_is_rejected:
  "passes_checks_1_to_6 example_lib sdr_ledger late_payment example_sdr \<and>
   within_limit_exact sdr_ledger late_payment example_sdr \<and>
   is_payment_authorized example_lib sdr_ledger late_payment = Inr False"
proof -
  have 1: "within_limit_exact sdr_ledger late_payment example_sdr" by code_simp
  have 2: "is_payment_authorized example_lib sdr_ledger late_payment = Inr False" by code_simp
  from sdr_passes 1 2 show ?thesis by simp
qed

lemma rounded_passes:
  "passes_checks_1_to_6 example_lib example_ledger rounded_payment example_dr"
  unfolding example_ledger_def
proof (rule passes_single)
  show "is_decision_row (decision_id rounded_payment) example_dr" by code_simp
  show "\<not> is_revocation_row (decision_id rounded_payment) example_dr" by code_simp
  show "validate_dr example_lib example_dr = Inr (True, [])" by code_simp
  show "payment_not_before_decision example_lib rounded_payment example_dr" by code_simp
  show "JStr (beneficiary rounded_payment) = py_get example_dr ''beneficiary''" by code_simp
  show "JStr (currency rounded_payment) = py_get example_dr ''currency''" by code_simp
qed

lemma crumbs_ledger_eq:
  "crumbs_ledger =
     \<lparr>records = [example_dr],
      payments = [\<lparr>decision_id = example_did, beneficiary = ''SUPPLIER-TEST'',
                   currency = ''BRL'', pvalue = ''0.0000000000000000000000001'',
                   payment_date = ''2024-01-15T14:00:00Z'', payment_id = ''PAY-001''\<rparr>,
                  \<lparr>decision_id = example_did, beneficiary = ''SUPPLIER-TEST'',
                   currency = ''BRL'', pvalue = ''9999.99'',
                   payment_date = ''2024-01-16T14:00:00Z'', payment_id = ''PAY-002''\<rparr>]\<rparr>"
  by (simp add: crumbs_ledger_def record_payment_def example_ledger_def)

lemma cent_passes:
  "passes_checks_1_to_6 example_lib crumbs_ledger cent_payment example_dr"
  unfolding crumbs_ledger_eq
proof (rule passes_single)
  show "is_decision_row (decision_id cent_payment) example_dr" by code_simp
  show "\<not> is_revocation_row (decision_id cent_payment) example_dr" by code_simp
  show "validate_dr example_lib example_dr = Inr (True, [])" by code_simp
  show "payment_not_before_decision example_lib cent_payment example_dr" by code_simp
  show "JStr (beneficiary cent_payment) = py_get example_dr ''beneficiary''" by code_simp
  show "JStr (currency cent_payment) = py_get example_dr ''currency''" by code_simp
qed

text \<open>
  C2. The claim is that a payment which passes checks 1 to 6 is authorized only if the sum
  of the payments recorded for the decision and its value is at most \<open>maximum_value\<close> in
  exact arithmetic. The code forms the sums with \<open>Decimal\<close> under the default context,
  which rounds each sum to 28 significant digits, and authorizes payments that take the
  exact total over the limit. On the ledger of the tests, with the limit \<open>10000.00\<close> and
  no payment recorded, a payment of \<open>10000.000000000000000000000001\<close> is authorized.
  After payments of \<open>0.0000000000000000000000001\<close> and \<open>9999.99\<close>, a payment of \<open>0.01\<close>
  is authorized: there the total of the recorded payments is rounded in \<open>sum_payments\<close>.
\<close>

theorem authorizes_payment_over_limit:
  "(passes_checks_1_to_6 example_lib example_ledger rounded_payment example_dr \<and>
    \<not> within_limit_exact example_ledger rounded_payment example_dr \<and>
    is_payment_authorized example_lib example_ledger rounded_payment = Inr True) \<and>
   (passes_checks_1_to_6 example_lib crumbs_ledger cent_payment example_dr \<and>
    \<not> within_limit_exact crumbs_ledger cent_payment example_dr \<and>
    is_payment_authorized example_lib crumbs_ledger cent_payment = Inr True)"
proof -
  have 1: "\<not> within_limit_exact example_ledger rounded_payment example_dr" by code_simp
  have 2: "is_payment_authorized example_lib example_ledger rounded_payment = Inr True"
    by code_simp
  have 3: "\<not> within_limit_exact crumbs_ledger cent_payment example_dr" by code_simp
  have 4: "is_payment_authorized example_lib crumbs_ledger cent_payment = Inr True"
    by code_simp
  from rounded_passes cent_passes 1 2 3 4 show ?thesis by blast
qed

section \<open>Evaluation on the example inputs\<close>

lemma example_dr_genesis: "verify_genesis example_lib example_dr"
  by code_simp

lemma example_dr_accepted: "insert_accepted example_dr"
  by code_simp

lemma example_dr_valid: "validate_dr example_lib example_dr = Inr (True, [])"
  by code_simp

lemma example_dr_row: "is_decision_row example_did example_dr"
  by code_simp

lemma example_dr_not_rr: "\<not> is_revocation_row example_did example_dr"
  by code_simp

lemma example_rr_valid: "validate_rr example_lib example_rr = (True, [])"
  by code_simp

lemma example_rr_type: "py_get example_rr ''record_type'' = JStr ''RR''"
  by code_simp

lemma example_rr_target: "py_get example_rr ''target_decision_id'' = JStr example_did"
  by code_simp

lemma append_example_dr:
  "append_record example_lib empty_ledger example_dr =
     (Inr (record_hash example_lib example_dr), example_ledger)"
  using example_dr_genesis example_dr_accepted
  by (simp add: append_record_passes_chain fails_chain_check_def empty_ledger_def
      example_ledger_def)

lemma create_example_dr:
  "create_decision_record example_lib uuid4 now empty_ledger ''GOV-TEST-001''
     [''DECIDER-001''] ''contract'' ''BRL'' ''10000.00'' ''SUPPLIER-TEST'' ''Test Law''
     ''2024-01-01T10:00:00Z'' [''SIG-001''] (Some example_did) (Some ''2024-01-01T10:30:00Z'') =
   (Inr example_dr, example_ledger)"
proof -
  have "build_dr example_did ''GOV-TEST-001'' [''DECIDER-001''] ''contract'' ''BRL''
          ''10000.00'' ''SUPPLIER-TEST'' ''Test Law'' ''2024-01-01T10:00:00Z''
          (compute_previous_hash example_lib (JStr ''GOV-TEST-001'')
             (JStr ''2024-01-01T10:30:00Z'') None)
          ''2024-01-01T10:30:00Z'' [''SIG-001''] = example_dr"
    by (simp add: example_dr_def compute_previous_hash_def)
  then show ?thesis
    by (simp add: create_decision_record_def get_all_records_def empty_ledger_def
        example_dr_valid append_example_dr[unfolded empty_ledger_def])
qed

lemma example_found: "find_decision_record example_ledger example_did = Some example_dr"
  using example_dr_row by (simp add: example_ledger_def found_single)

lemma example_unrevoked: "\<not> is_revoked example_ledger example_did"
  using example_dr_not_rr
  by (simp add: is_revoked_def find_revocation_record_def example_ledger_def)

lemma create_example_rr:
  "create_revocation_record example_lib uuid4 now example_ledger example_did ''GOV-TEST-001''
     [''DECIDER-001''] ''Contract cancelled'' [''SIG-001'']
     (Some ''99999999-2222-4333-8444-555555555555'') None (Some ''2024-02-01T09:00:00Z'') =
   (Inr example_rr, revoked_ledger)"
proof -
  have last: "last (records example_ledger) = example_dr"
    by (simp add: example_ledger_def)
  show ?thesis
    unfolding create_revocation_record_unfold
    using example_found example_unrevoked
    by (simp add: Let_def last example_rr_def[symmetric] example_rr_valid
        revoked_ledger_def example_ledger_def)
qed

section \<open>Witnesses\<close>

theorem append_record_atomic_on_failure_witness:
  "fails_chain_check example_lib example_ledger example_dr \<and>
   snd (append_record example_lib example_ledger example_dr) = example_ledger \<and>
   fst (append_record example_lib example_ledger example_dr) = Inl HashChainValidationFailed"
proof -
  have h: "fails_chain_check example_lib example_ledger example_dr"
    by code_simp
  have "records example_ledger \<noteq> []"
    by (simp add: example_ledger_def)
  with h append_record_atomic_on_failure[OF h] show ?thesis
    by simp
qed

theorem append_record_chain_error_iff_witness:
  "fst (append_record example_lib empty_ledger example_dr) =
     Inr (record_hash example_lib example_dr) \<and>
   records (snd (append_record example_lib empty_ledger example_dr)) =
     records empty_ledger @ [example_dr] \<and>
   \<not> (\<exists>e. fst (append_record example_lib empty_ledger example_dr) = Inl e \<and>
          is_chain_error e)"
proof -
  have ok: "fst (append_record example_lib empty_ledger example_dr) =
      Inr (record_hash example_lib example_dr)"
    by (simp add: append_example_dr)
  have "records empty_ledger = []"
    by (simp add: empty_ledger_def)
  with ok example_dr_genesis
    append_record_chain_error_iff[of example_lib empty_ledger example_dr
      "record_hash example_lib example_dr" "''PAY-001''" example_did "''SUPPLIER-TEST''"
      "''BRL''" "''6000.00''" "''2024-01-15T14:00:00Z''"]
  show ?thesis
    by simp
qed

theorem factory_chain_verifies_witness:
  "factory_built example_lib revoked_ledger \<and>
   verify_chain_integrity example_lib revoked_ledger = (True, None)"
proof -
  have "example_ledger =
      snd (create_decision_record example_lib [] [] empty_ledger ''GOV-TEST-001''
        [''DECIDER-001''] ''contract'' ''BRL'' ''10000.00'' ''SUPPLIER-TEST'' ''Test Law''
        ''2024-01-01T10:00:00Z'' [''SIG-001''] (Some example_did)
        (Some ''2024-01-01T10:30:00Z''))"
    by (simp add: create_example_dr)
  with fb_new have "factory_built example_lib example_ledger"
    by (rule fb_decision)
  moreover have "revoked_ledger =
      snd (create_revocation_record example_lib [] [] example_ledger example_did
        ''GOV-TEST-001'' [''DECIDER-001''] ''Contract cancelled'' [''SIG-001'']
        (Some ''99999999-2222-4333-8444-555555555555'') None (Some ''2024-02-01T09:00:00Z''))"
    by (simp add: create_example_rr)
  ultimately have fb: "factory_built example_lib revoked_ledger"
    by (rule fb_revocation)
  with factory_chain_verifies[OF fb] show ?thesis
    by simp
qed

theorem revocation_blocks_payment_witness:
  "is_payment_authorized example_lib example_ledger ok_payment = Inr True \<and>
   py_get example_rr ''record_type'' = JStr ''RR'' \<and>
   py_get example_rr ''target_decision_id'' = JStr (decision_id ok_payment) \<and>
   append_record example_lib example_ledger example_rr =
     (Inr (record_hash example_lib example_rr), revoked_ledger) \<and>
   is_payment_authorized example_lib revoked_ledger ok_payment = Inr False"
proof -
  have a: "is_payment_authorized example_lib example_ledger ok_payment = Inr True"
    by code_simp
  have t: "py_get example_rr ''target_decision_id'' = JStr (decision_id ok_payment)"
    by (simp add: example_rr_target ok_payment_def example_payment_def)
  have "\<not> fails_chain_check example_lib example_ledger example_rr"
    by code_simp
  moreover have "insert_accepted example_rr"
    by code_simp
  ultimately have app: "append_record example_lib example_ledger example_rr =
      (Inr (record_hash example_lib example_rr), revoked_ledger)"
    by (simp add: append_record_passes_chain example_ledger_def revoked_ledger_def)
  from revocation_blocks_payment[OF a example_rr_type t app] a t app example_rr_type
  show ?thesis
    by simp
qed

theorem reason_variant_agrees_witness:
  "is_payment_authorized_with_reason example_lib example_ledger over_payment =
     Inr (False, ''EXCEEDS_MAXIMUM_VALUE'') \<and>
   is_payment_authorized example_lib example_ledger over_payment = Inr False"
proof -
  have r: "is_payment_authorized_with_reason example_lib example_ledger over_payment =
      Inr (False, ''EXCEEDS_MAXIMUM_VALUE'')"
    by code_simp
  with reason_variant_agrees[of example_lib example_ledger over_payment] show ?thesis
    by simp
qed

theorem create_revocation_record_behaviour_witness:
  "find_decision_record example_ledger example_did \<noteq> None \<and>
   \<not> is_revoked example_ledger example_did \<and>
   create_revocation_record example_lib ''99999999-2222-4333-8444-555555555555''
     ''2024-02-01T09:00:00Z'' example_ledger example_did ''GOV-TEST-001'' [''DECIDER-001'']
     ''Contract cancelled'' [''SIG-001''] None None None =
   (Inr example_rr, revoked_ledger) \<and>
   create_revocation_record example_lib ''99999999-2222-4333-8444-555555555555''
     ''2024-02-01T09:00:00Z'' revoked_ledger example_did ''GOV-TEST-001'' [''DECIDER-001'']
     ''Contract cancelled'' [''SIG-001''] None None None =
   (Inl (DecisionAlreadyRevoked example_did), revoked_ledger)"
proof -
  have last: "last (records example_ledger) = example_dr"
    by (simp add: example_ledger_def)
  have found2: "find_decision_record revoked_ledger example_did \<noteq> None"
    using example_dr_row by (simp add: find_decision_record_def revoked_ledger_def)
  have "is_revocation_row example_did example_rr"
    by code_simp
  then have revoked2: "is_revoked revoked_ledger example_did"
    by (simp add: is_revoked_def find_revocation_record_def revoked_ledger_def)
  have 1: "create_revocation_record example_lib ''99999999-2222-4333-8444-555555555555''
     ''2024-02-01T09:00:00Z'' example_ledger example_did ''GOV-TEST-001'' [''DECIDER-001'']
     ''Contract cancelled'' [''SIG-001''] None None None = (Inr example_rr, revoked_ledger)"
    unfolding create_revocation_record_behaviour
    using example_found example_unrevoked
    by (simp add: Let_def last example_rr_def[symmetric] example_rr_valid
        revoked_ledger_def example_ledger_def)
  have 2: "create_revocation_record example_lib ''99999999-2222-4333-8444-555555555555''
     ''2024-02-01T09:00:00Z'' revoked_ledger example_did ''GOV-TEST-001'' [''DECIDER-001'']
     ''Contract cancelled'' [''SIG-001''] None None None =
     (Inl (DecisionAlreadyRevoked example_did), revoked_ledger)"
    unfolding create_revocation_record_behaviour
    using found2 revoked2 by simp
  from 1 2 example_found example_unrevoked show ?thesis
    by simp
qed

lemma open_sdr_passes: "passes_checks_1_to_6 example_lib open_sdr_ledger far_payment open_sdr"
  unfolding open_sdr_ledger_def
proof (rule passes_single)
  show "is_decision_row (decision_id far_payment) open_sdr" by code_simp
  show "\<not> is_revocation_row (decision_id far_payment) open_sdr" by code_simp
  show "validate_dr example_lib open_sdr = Inr (True, [])" by code_simp
  show "payment_not_before_decision example_lib far_payment open_sdr" by code_simp
  show "JStr (beneficiary far_payment) = py_get open_sdr ''beneficiary''" by code_simp
  show "JStr (currency far_payment) = py_get open_sdr ''currency''" by code_simp
qed

theorem sdr_without_usable_term_is_not_limited_witness:
  "passes_checks_1_to_6 example_lib open_sdr_ledger far_payment open_sdr \<and>
   within_limit open_sdr_ledger far_payment open_sdr \<and>
   py_get open_sdr ''record_type'' = JStr ''SDR'' \<and>
   open_sdr ''maximum_term'' = None \<and>
   is_payment_authorized example_lib open_sdr_ledger far_payment = Inr True"
proof -
  have w: "within_limit open_sdr_ledger far_payment open_sdr" by code_simp
  have t: "py_get open_sdr ''record_type'' = JStr ''SDR''" by code_simp
  have n: "open_sdr ''maximum_term'' = None" by code_simp
  then have d: "open_sdr ''maximum_term'' = None \<or> py_get open_sdr ''maximum_term'' = JNull \<or>
      py_get open_sdr ''maximum_term'' = JStr [] \<or>
      \<not> is_iso8601 example_lib (py_get open_sdr ''maximum_term'')"
    by simp
  from sdr_without_usable_term_is_not_limited[OF open_sdr_passes w t d] open_sdr_passes w t n
  show ?thesis
    by simp
qed

lemma paid_ledger_eq:
  "paid_ledger =
     \<lparr>records = [example_dr],
      payments = [\<lparr>decision_id = example_did, beneficiary = ''SUPPLIER-TEST'',
                   currency = ''BRL'', pvalue = ''6000.00'',
                   payment_date = ''2024-01-15T14:00:00Z'', payment_id = ''PAY-001''\<rparr>]\<rparr>"
  by (simp add: paid_ledger_def record_payment_def example_ledger_def)

lemma boundary_passes:
  "passes_checks_1_to_6 example_lib paid_ledger boundary_payment example_dr"
  unfolding paid_ledger_eq
proof (rule passes_single)
  show "is_decision_row (decision_id boundary_payment) example_dr" by code_simp
  show "\<not> is_revocation_row (decision_id boundary_payment) example_dr" by code_simp
  show "validate_dr example_lib example_dr = Inr (True, [])" by (rule example_dr_valid)
  show "payment_not_before_decision example_lib boundary_payment example_dr" by code_simp
  show "JStr (beneficiary boundary_payment) = py_get example_dr ''beneficiary''" by code_simp
  show "JStr (currency boundary_payment) = py_get example_dr ''currency''" by code_simp
qed

text \<open>
  The numbers of the two inputs: the record is of type DR, so no expiry check applies; the
  limit is \<open>10000.00\<close>; the first payment is \<open>10000.000000000000000000000001\<close> with
  nothing paid before; before the second payment of \<open>0.01\<close> the exact total paid is
  \<open>9999.9900000000000000000000001\<close>, which \<open>sum_payments\<close> gives as
  \<open>9999.990000000000000000000000\<close>. On both the reason-carrying variant answers
  \<open>AUTHORIZED\<close>, where the spec answers \<open>EXCEEDS_MAXIMUM_VALUE\<close>.
\<close>

theorem authorizes_payment_over_limit_witness:
  "py_get example_dr ''record_type'' = JStr ''DR'' \<and>
   Decimal (py_str (py_get example_dr ''maximum_value'')) = Inr (Finite 1000000 (- 2)) \<and>
   Decimal (pvalue rounded_payment) = Inr (Finite 10000000000000000000000000001 (- 24)) \<and>
   exact_total (0, 0) (recorded_values example_ledger example_did) = Some (0, 0) \<and>
   Decimal (pvalue cent_payment) = Inr (Finite 1 (- 2)) \<and>
   exact_total (0, 0) (recorded_values crumbs_ledger example_did) =
     Some (99999900000000000000000000001, - 25) \<and>
   sum_payments crumbs_ledger example_did = Inr (Finite 9999990000000000000000000000 (- 24)) \<and>
   is_payment_authorized_with_reason example_lib example_ledger rounded_payment =
     Inr (True, ''AUTHORIZED'') \<and>
   is_payment_authorized_with_reason example_lib crumbs_ledger cent_payment =
     Inr (True, ''AUTHORIZED'') \<and>
   is_payment_authorized example_lib example_ledger rounded_payment \<noteq> Inr False \<and>
   is_payment_authorized example_lib crumbs_ledger cent_payment \<noteq> Inr False"
proof -
  have 1: "py_get example_dr ''record_type'' = JStr ''DR''" by code_simp
  have 2: "Decimal (py_str (py_get example_dr ''maximum_value'')) = Inr (Finite 1000000 (- 2))"
    by code_simp
  have 3: "Decimal (pvalue rounded_payment) =
      Inr (Finite 10000000000000000000000000001 (- 24))"
    by code_simp
  have 4: "exact_total (0, 0) (recorded_values example_ledger example_did) = Some (0, 0)"
    by code_simp
  have 5: "Decimal (pvalue cent_payment) = Inr (Finite 1 (- 2))" by code_simp
  have 6: "exact_total (0, 0) (recorded_values crumbs_ledger example_did) =
      Some (99999900000000000000000000001, - 25)"
    by code_simp
  have 7: "sum_payments crumbs_ledger example_did =
      Inr (Finite 9999990000000000000000000000 (- 24))"
    by code_simp
  have 8: "is_payment_authorized_with_reason example_lib example_ledger rounded_payment =
      Inr (True, ''AUTHORIZED'')"
    by code_simp
  have 9: "is_payment_authorized_with_reason example_lib crumbs_ledger cent_payment =
      Inr (True, ''AUTHORIZED'')"
    by code_simp
  from authorizes_payment_over_limit 1 2 3 4 5 6 7 8 9 show ?thesis
    by simp
qed

text \<open>
  The boundary of the limit where the sums are exact: after a payment of \<open>6000.00\<close>, a
  payment of the \<open>4000.00\<close> left is within the limit and is authorized.
\<close>

lemma boundary_payment_is_authorized:
  "within_limit_exact paid_ledger boundary_payment example_dr \<and>
   is_payment_authorized example_lib paid_ledger boundary_payment = Inr True"
proof -
  have m: "Decimal (py_str (py_get example_dr ''maximum_value'')) = Inr (Finite 1000000 (- 2))"
    by code_simp
  have x: "sums_are_exact (0, 0)
      (recorded_values paid_ledger (decision_id boundary_payment) @ [pvalue boundary_payment])"
    by code_simp
  have w: "within_limit_exact paid_ledger boundary_payment example_dr" by code_simp
  have e: "expiry_ok example_lib boundary_payment example_dr" by code_simp
  from authorized_iff_exact_limit[OF boundary_passes m x] w e show ?thesis
    by simp
qed


section \<open>Where the code raises\<close>

text \<open>
  C1. The claim is that \<open>is_payment_authorized\<close> never raises. On the factory-built example
  ledger it raises \<open>TypeError\<close> for a payment whose date has no UTC offset (the decision
  date has one, and the two parsed dates are compared outside any \<open>try\<close>), and
  \<open>decimal.InvalidOperation\<close> for a payment whose value is \<open>NaN\<close> (the constructor accepts
  it inside the \<open>try\<close>, the comparison with zero after the \<open>try\<close> raises).
\<close>

theorem authorization_raises:
  "is_payment_authorized example_lib example_ledger naive_payment = Inl TypeError \<and>
   is_payment_authorized example_lib example_ledger nan_payment = Inl InvalidOperation"
proof -
  have 1: "is_payment_authorized example_lib example_ledger naive_payment = Inl TypeError"
    by code_simp
  have 2: "is_payment_authorized example_lib example_ledger nan_payment = Inl InvalidOperation"
    by code_simp
  from 1 2 show ?thesis by simp
qed

text \<open>
  C6. The claim is that \<open>validate_dr\<close> returns the list of violated codes for every
  record. For a record with all required fields whose \<open>decision_date\<close> has no UTC offset
  and whose \<open>record_timestamp\<close> has one, it returns nothing: comparing the two parsed
  dates raises \<open>TypeError\<close>.
\<close>

theorem validate_dr_raises_on_mixed_dates:
  "validate_dr example_lib naive_dr = Inl TypeError"
  by code_simp

text \<open>
  The ledger of the first theorem is built by the factory, and on neither input is the
  result the boolean \<open>False\<close> that the claim promises.
\<close>

theorem authorization_raises_witness:
  "factory_built example_lib example_ledger \<and>
   is_payment_authorized example_lib example_ledger naive_payment \<noteq> Inr False \<and>
   is_payment_authorized example_lib example_ledger nan_payment \<noteq> Inr False"
proof -
  have "example_ledger =
      snd (create_decision_record example_lib [] [] empty_ledger ''GOV-TEST-001''
        [''DECIDER-001''] ''contract'' ''BRL'' ''10000.00'' ''SUPPLIER-TEST'' ''Test Law''
        ''2024-01-01T10:00:00Z'' [''SIG-001''] (Some example_did)
        (Some ''2024-01-01T10:30:00Z''))"
    by (simp add: create_example_dr)
  with fb_new have "factory_built example_lib example_ledger"
    by (rule fb_decision)
  with authorization_raises show ?thesis
    by simp
qed

text \<open>
  The record of the second theorem has every required field and two valid timestamps;
  the result is not the list of the spec's validator.
\<close>

theorem validate_dr_raises_on_mixed_dates_witness:
  "missing_codes naive_dr dr_required = [] \<and>
   is_iso8601 example_lib (py_get naive_dr ''decision_date'') \<and>
   is_iso8601 example_lib (py_get naive_dr ''record_timestamp'') \<and>
   validate_dr example_lib naive_dr \<noteq>
     Inr (validate_spec dr_required (dr_rules example_lib naive_dr) naive_dr)"
proof -
  have 1: "missing_codes naive_dr dr_required = []" by code_simp
  have 2: "is_iso8601 example_lib (py_get naive_dr ''decision_date'')" by code_simp
  have 3: "is_iso8601 example_lib (py_get naive_dr ''record_timestamp'')" by code_simp
  from validate_dr_raises_on_mixed_dates 1 2 3 show ?thesis
    by simp
qed

end
